theory Spec2Isabelle
  imports Main "HOL-Library.Multiset" "HOL-Library.Code_Target_Nat"
begin

section \<open>Python values used by the announcements router\<close>

text \<open>
  The router \<^verbatim>\<open>src/backend/routers/announcements.py\<close> is embedded function by
  function. Exceptions are values: an operation returns \<open>Inl\<close> of the exception it
  raises, or \<open>Inr\<close> of what it returns, paired with the store it leaves behind.
  \<open>HTTPException status_code detail\<close> is the exception the handlers raise themselves;
  \<open>TypeError\<close> is the one \<^verbatim>\<open>datetime\<close> raises when an ordering comparison
  mixes a value that carries a UTC offset with one that does not. No handler
  catches it, so it leaves the handler as it is.
\<close>

datatype pyerr = HTTPException nat string | TypeError

subsection \<open>Strings\<close>

text \<open>
  A \<^verbatim>\<open>str\<close> is a list of characters; the 8-bit characters of HOL are read as the
  code points below 256. \<open>py_isspace\<close> lists the code points below 256 for which
  \<^verbatim>\<open>str.isspace\<close> holds, which are the ones \<^verbatim>\<open>str.strip()\<close> removes.
\<close>

definition py_isspace :: "char \<Rightarrow> bool" where
  "py_isspace c = (c \<in> set [CHR 0x09, CHR 0x0A, CHR 0x0B, CHR 0x0C, CHR 0x0D,
                              CHR 0x1C, CHR 0x1D, CHR 0x1E, CHR 0x1F, CHR 0x20,
                              CHR 0x85, CHR 0xA0])"

definition strip :: "string \<Rightarrow> string" where
  "strip s = rev (dropWhile py_isspace (rev (dropWhile py_isspace s)))"

text \<open>\<^verbatim>\<open>s.replace(old, new)\<close> for a one-character \<open>old\<close>.\<close>

definition replace :: "string \<Rightarrow> char \<Rightarrow> string \<Rightarrow> string" where
  "replace s old new = concat (map (\<lambda>c. if c = old then new else [c]) s)"

text \<open>
  Truth value of an \<^verbatim>\<open>Optional[str]\<close>: \<^verbatim>\<open>None\<close> and the empty string are false.
\<close>

definition truthy :: "string option \<Rightarrow> bool" where
  "truthy v = (case v of None \<Rightarrow> False | Some s \<Rightarrow> s \<noteq> [])"

subsection \<open>Decimal digits\<close>

definition digit_val :: "char \<Rightarrow> nat option" where
  "digit_val c = map_of [(CHR ''0'', 0), (CHR ''1'', 1), (CHR ''2'', 2), (CHR ''3'', 3),
                         (CHR ''4'', 4), (CHR ''5'', 5), (CHR ''6'', 6), (CHR ''7'', 7),
                         (CHR ''8'', 8), (CHR ''9'', 9)] c"

text \<open>The number a non-empty string of decimal digits denotes.\<close>

fun parse_digits_acc :: "nat \<Rightarrow> string \<Rightarrow> nat option" where
  "parse_digits_acc acc [] = Some acc"
| "parse_digits_acc acc (c # cs) =
     (case digit_val c of
        None \<Rightarrow> None
      | Some d \<Rightarrow> parse_digits_acc (10 * acc + d) cs)"

definition parse_digits :: "string \<Rightarrow> nat option" where
  "parse_digits s = (if s = [] then None else parse_digits_acc 0 s)"

definition digit_char :: "nat \<Rightarrow> char" where
  "digit_char n = ''0123456789'' ! (n mod 10)"

text \<open>\<^verbatim>\<open>"%0wd" % n\<close> for \<open>n < 10 ^ w\<close>: the \<open>w\<close> low decimal digits of \<open>n\<close>.\<close>

fun zero_padded :: "nat \<Rightarrow> nat \<Rightarrow> string" where
  "zero_padded 0 n = []"
| "zero_padded (Suc w) n = zero_padded w (n div 10) @ [digit_char n]"

section \<open>datetime\<close>

text \<open>
  A \<^verbatim>\<open>datetime\<close> holds its calendar fields and its \<^verbatim>\<open>tzinfo\<close>. The only time
  zones the router can produce are the fixed offsets \<^verbatim>\<open>fromisoformat\<close> builds, so
  \<open>tzinfo\<close> is \<open>None\<close> (a naive value) or the UTC offset in microseconds (an aware
  value).
\<close>

record datetime =
  year :: nat
  month :: nat
  day :: nat
  hour :: nat
  minute :: nat
  second :: nat
  microsecond :: nat
  tzinfo :: "int option"

definition is_leap :: "nat \<Rightarrow> bool" where
  "is_leap y = (y mod 4 = 0 \<and> (y mod 100 \<noteq> 0 \<or> y mod 400 = 0))"

definition days_in_month :: "nat \<Rightarrow> nat \<Rightarrow> nat" where
  "days_in_month y m =
     (if m = 2 \<and> is_leap y then 29
      else [0, 31, 28, 31, 30, 31, 30, 31, 31, 30, 31, 30, 31] ! m)"

definition days_before_year :: "nat \<Rightarrow> nat" where
  "days_before_year y = (y - 1) * 365 + (y - 1) div 4 - (y - 1) div 100 + (y - 1) div 400"

definition days_before_month :: "nat \<Rightarrow> nat \<Rightarrow> nat" where
  "days_before_month y m =
     [0, 0, 31, 59, 90, 120, 151, 181, 212, 243, 273, 304, 334] ! m
       + (if m > 2 \<and> is_leap y then 1 else 0)"

definition ymd2ord :: "nat \<Rightarrow> nat \<Rightarrow> nat \<Rightarrow> nat" where
  "ymd2ord y m d = days_before_year y + days_before_month y m + d"

text \<open>
  The constructor's range checks (\<^verbatim>\<open>_check_date_fields\<close>, \<^verbatim>\<open>_check_time_fields\<close>,
  and \<^verbatim>\<open>timezone\<close>'s bound on the offset); \<open>None\<close> is the \<^verbatim>\<open>ValueError\<close>.
\<close>

definition mk_datetime ::
  "nat \<Rightarrow> nat \<Rightarrow> nat \<Rightarrow> nat \<Rightarrow> nat \<Rightarrow> nat \<Rightarrow> nat \<Rightarrow> int option \<Rightarrow> datetime option" where
  "mk_datetime y m d hh mm ss us tz =
     (if 1 \<le> y \<and> y \<le> 9999 \<and> 1 \<le> m \<and> m \<le> 12 \<and> 1 \<le> d \<and> d \<le> days_in_month y m
         \<and> hh \<le> 23 \<and> mm \<le> 59 \<and> ss \<le> 59 \<and> us \<le> 999999
         \<and> (case tz of None \<Rightarrow> True | Some off \<Rightarrow> \<bar>off\<bar> < 86400000000)
      then Some \<lparr>year = y, month = m, day = d, hour = hh, minute = mm, second = ss,
                  microsecond = us, tzinfo = tz\<rparr>
      else None)"

subsection \<open>Comparison\<close>

text \<open>
  \<open>wall_micros\<close> places the calendar fields on a line of microseconds (day ordinal,
  then time of day), as \<^verbatim>\<open>datetime.__sub__\<close> does.
\<close>

definition wall_micros :: "datetime \<Rightarrow> int" where
  "wall_micros t =
     ((int (ymd2ord (year t) (month t) (day t)) * 24 + int (hour t)) * 60 + int (minute t)) * 60000000
       + int (second t) * 1000000 + int (microsecond t)"

text \<open>Python's comparison of two tuples of integers, as \<^verbatim>\<open>_cmp\<close> reports it.\<close>

fun cmp_tuple :: "nat list \<Rightarrow> nat list \<Rightarrow> int" where
  "cmp_tuple [] [] = 0"
| "cmp_tuple [] (y # ys) = - 1"
| "cmp_tuple (x # xs) [] = 1"
| "cmp_tuple (x # xs) (y # ys) = (if x = y then cmp_tuple xs ys else if x > y then 1 else - 1)"

definition date_fields :: "datetime \<Rightarrow> nat list" where
  "date_fields t = [year t, month t, day t, hour t, minute t, second t, microsecond t]"

text \<open>
  \<^verbatim>\<open>datetime._cmp(other)\<close> as the ordering operators call it: equal offsets (or two
  naive values) compare the fields; one naive and one aware value raise
  \<^verbatim>\<open>TypeError\<close>; two different offsets compare the difference of the instants.
\<close>

definition datetime_cmp :: "datetime \<Rightarrow> datetime \<Rightarrow> pyerr + int" where
  "datetime_cmp a b =
     (if tzinfo a = tzinfo b then Inr (cmp_tuple (date_fields a) (date_fields b))
      else case (tzinfo a, tzinfo b) of
        (Some myoff, Some otoff) \<Rightarrow>
          (let diff = (wall_micros a - myoff) - (wall_micros b - otoff)
           in Inr (if diff < 0 then - 1 else if diff \<noteq> 0 then 1 else 0))
      | _ \<Rightarrow> Inl TypeError)"

definition datetime_le :: "datetime \<Rightarrow> datetime \<Rightarrow> pyerr + bool" where
  "datetime_le a b = (case datetime_cmp a b of Inl e \<Rightarrow> Inl e | Inr c \<Rightarrow> Inr (c \<le> 0))"

definition datetime_ge :: "datetime \<Rightarrow> datetime \<Rightarrow> pyerr + bool" where
  "datetime_ge a b = (case datetime_cmp a b of Inl e \<Rightarrow> Inl e | Inr c \<Rightarrow> Inr (c \<ge> 0))"

definition datetime_lt :: "datetime \<Rightarrow> datetime \<Rightarrow> pyerr + bool" where
  "datetime_lt a b = (case datetime_cmp a b of Inl e \<Rightarrow> Inl e | Inr c \<Rightarrow> Inr (c < 0))"

text \<open>
  \<^verbatim>\<open>datetime.now()\<close> with no argument: the reading of the local wall clock, without
  \<^verbatim>\<open>tzinfo\<close>. The reading is an input of the model.
\<close>

definition datetime_now :: "datetime \<Rightarrow> datetime" where
  "datetime_now clock = clock\<lparr>tzinfo := None\<rparr>"

subsection \<open>fromisoformat and isoformat\<close>

text \<open>
  \<^verbatim>\<open>datetime.fromisoformat\<close> for the grammar its documentation gives,
  \<^verbatim>\<open>YYYY-MM-DD[*HH[:MM[:SS[.fff[fff]]]][+HH:MM[:SS[.ffffff]]]]\<close>, where \<^verbatim>\<open>*\<close> is
  any single character. \<open>None\<close> is the \<^verbatim>\<open>ValueError\<close>. Later Python versions read
  further ISO 8601 forms; the theorems below take the parser's result as given
  and evaluate it only on strings of this grammar.
\<close>

definition parse_isoformat_date :: "string \<Rightarrow> (nat \<times> nat \<times> nat) option" where
  "parse_isoformat_date dtstr =
     (if length dtstr \<noteq> 10 \<or> dtstr ! 4 \<noteq> CHR ''-'' \<or> dtstr ! 7 \<noteq> CHR ''-'' then None
      else case (parse_digits (take 4 dtstr), parse_digits (take 2 (drop 5 dtstr)),
                 parse_digits (take 2 (drop 8 dtstr))) of
        (Some y, Some m, Some d) \<Rightarrow> Some (y, m, d)
      | _ \<Rightarrow> None)"

text \<open>
  \<^verbatim>\<open>HH[:MM[:SS[.fff[fff]]]]\<close>: up to three two-digit components separated by
  colons, then an optional fraction of three or six digits.
\<close>

definition parse_fraction :: "string \<Rightarrow> nat option" where
  "parse_fraction s =
     (if s = [] then Some 0
      else if hd s \<noteq> CHR ''.'' then None
      else if length (tl s) = 3 then map_option (\<lambda>n. n * 1000) (parse_digits (tl s))
      else if length (tl s) = 6 then parse_digits (tl s)
      else None)"

fun parse_components :: "nat \<Rightarrow> string \<Rightarrow> (nat list \<times> string) option" where
  "parse_components 0 s =
     (if length s < 2 then None
      else map_option (\<lambda>v. ([v], drop 2 s)) (parse_digits (take 2 s)))"
| "parse_components (Suc k) s =
     (if length s < 2 then None
      else (case parse_digits (take 2 s) of
              None \<Rightarrow> None
            | Some v \<Rightarrow>
                if drop 2 s = [] then Some ([v], [])
                else if s ! 2 \<noteq> CHR '':'' then None
                else map_option (\<lambda>(vs, r). (v # vs, r)) (parse_components k (drop 3 s))))"

definition parse_hh_mm_ss_ff :: "string \<Rightarrow> (nat \<times> nat \<times> nat \<times> nat) option" where
  "parse_hh_mm_ss_ff tstr =
     (case parse_components 2 tstr of
        None \<Rightarrow> None
      | Some (vs, r) \<Rightarrow>
          (let time_comps = vs @ replicate (3 - length vs) 0
           in map_option (\<lambda>us. (time_comps ! 0, time_comps ! 1, time_comps ! 2, us))
                (parse_fraction r)))"

text \<open>The position of the first sign character, where the offset starts.\<close>

definition find_sign :: "string \<Rightarrow> nat option" where
  "find_sign tstr =
     (let n = length (takeWhile (\<lambda>c. c \<noteq> CHR ''+'' \<and> c \<noteq> CHR ''-'') tstr)
      in if n < length tstr then Some n else None)"

definition parse_offset :: "bool \<Rightarrow> string \<Rightarrow> int option" where
  "parse_offset negative tzstr =
     (if length tzstr \<notin> set [5, 8, 15] then None
      else map_option
             (\<lambda>(th, tm, ts, tu).
                (if negative then - 1 else 1)
                  * (((int th * 60 + int tm) * 60 + int ts) * 1000000 + int tu))
             (parse_hh_mm_ss_ff tzstr))"

definition parse_isoformat_time :: "string \<Rightarrow> (nat \<times> nat \<times> nat \<times> nat \<times> int option) option" where
  "parse_isoformat_time tstr =
     (case find_sign tstr of
        None \<Rightarrow> map_option (\<lambda>(hh, mm, ss, us). (hh, mm, ss, us, None)) (parse_hh_mm_ss_ff tstr)
      | Some p \<Rightarrow>
          (case (parse_hh_mm_ss_ff (take p tstr),
                 parse_offset (tstr ! p = CHR ''-'') (drop (Suc p) tstr)) of
             (Some (hh, mm, ss, us), Some off) \<Rightarrow> Some (hh, mm, ss, us, Some off)
           | _ \<Rightarrow> None))"

definition fromisoformat :: "string \<Rightarrow> datetime option" where
  "fromisoformat date_string =
     (case parse_isoformat_date (take 10 date_string) of
        None \<Rightarrow> None
      | Some (y, m, d) \<Rightarrow>
          (if length date_string = 10 then mk_datetime y m d 0 0 0 0 None
           else (case parse_isoformat_time (drop 11 date_string) of
                   None \<Rightarrow> None
                 | Some (hh, mm, ss, us, tz) \<Rightarrow> mk_datetime y m d hh mm ss us tz)))"

text \<open>
  \<^verbatim>\<open>isoformat()\<close>: date, \<^verbatim>\<open>T\<close>, time, the microseconds when they are not zero,
  and the offset of an aware value.
\<close>

definition format_offset :: "int option \<Rightarrow> string" where
  "format_offset off =
     (case off of
        None \<Rightarrow> []
      | Some v \<Rightarrow>
          let a = \<bar>v\<bar>;
              hh = nat (a div 3600000000);
              mm = nat ((a mod 3600000000) div 60000000);
              ss = nat ((a mod 60000000) div 1000000);
              us = nat (a mod 1000000)
          in (if v < 0 then ''-'' else ''+'') @ zero_padded 2 hh @ '':'' @ zero_padded 2 mm
             @ (if ss \<noteq> 0 \<or> us \<noteq> 0
                then '':'' @ zero_padded 2 ss @ (if us \<noteq> 0 then ''.'' @ zero_padded 6 us else [])
                else []))"

definition isoformat :: "datetime \<Rightarrow> string" where
  "isoformat t =
     zero_padded 4 (year t) @ ''-'' @ zero_padded 2 (month t) @ ''-'' @ zero_padded 2 (day t)
     @ ''T'' @ zero_padded 2 (hour t) @ '':'' @ zero_padded 2 (minute t) @ '':''
     @ zero_padded 2 (second t)
     @ (if microsecond t \<noteq> 0 then ''.'' @ zero_padded 6 (microsecond t) else [])
     @ format_offset (tzinfo t)"

section \<open>The record store\<close>

subsection \<open>Identifiers\<close>

text \<open>
  A \<^verbatim>\<open>bson.ObjectId\<close> is twelve bytes, written as 24 hexadecimal digits.
  \<open>ObjectId s\<close> is the constructor applied to a \<^verbatim>\<open>str\<close>: \<open>None\<close> is the
  \<^verbatim>\<open>InvalidId\<close> it raises, which the handlers catch. \<open>str_of\<close> is \<^verbatim>\<open>str(oid)\<close>.
\<close>

datatype objectid = Oid string

definition hex_lower :: "char \<Rightarrow> char option" where
  "hex_lower c = map_of (zip ''0123456789abcdefABCDEF'' ''0123456789abcdefabcdef'') c"

definition ObjectId :: "string \<Rightarrow> objectid option" where
  "ObjectId s =
     (if length s = 24 \<and> list_all (\<lambda>c. hex_lower c \<noteq> None) s
      then Some (Oid (map (\<lambda>c. the (hex_lower c)) s))
      else None)"

definition str_of :: "objectid \<Rightarrow> string" where
  "str_of oid = (case oid of Oid h \<Rightarrow> h)"

subsection \<open>Documents\<close>

text \<open>
  An announcement document, with the keys \<^verbatim>\<open>_id\<close>, \<^verbatim>\<open>message\<close>, \<^verbatim>\<open>start_date\<close>,
  \<^verbatim>\<open>expiration_date\<close> and \<^verbatim>\<open>created_at\<close> the router writes. A \<^verbatim>\<open>start_date\<close> that
  is \<^verbatim>\<open>None\<close> is \<open>None\<close>.
\<close>

record announcement =
  ann_id :: objectid
  ann_message :: string
  ann_start_date :: "datetime option"
  ann_expiration_date :: datetime
  ann_created_at :: datetime

text \<open>The values a query or an update names.\<close>

datatype bson = BNull | BString string | BDate datetime | BObjectId objectid

definition get_field :: "announcement \<Rightarrow> string \<Rightarrow> bson" where
  "get_field d k =
     (if k = ''_id'' then BObjectId (ann_id d)
      else if k = ''message'' then BString (ann_message d)
      else if k = ''start_date'' then (case ann_start_date d of None \<Rightarrow> BNull | Some t \<Rightarrow> BDate t)
      else if k = ''expiration_date'' then BDate (ann_expiration_date d)
      else if k = ''created_at'' then BDate (ann_created_at d)
      else BNull)"

text \<open>
  One entry of a \<^verbatim>\<open>$set\<close>. The router sets a string for \<^verbatim>\<open>message\<close>, a date or
  \<^verbatim>\<open>None\<close> for \<^verbatim>\<open>start_date\<close> and a date for \<^verbatim>\<open>expiration_date\<close>; any other entry
  leaves the document as it is.
\<close>

definition set_field :: "string \<times> bson \<Rightarrow> announcement \<Rightarrow> announcement" where
  "set_field kv d =
     (case kv of
        (k, BString s) \<Rightarrow> (if k = ''message'' then d\<lparr>ann_message := s\<rparr> else d)
      | (k, BNull) \<Rightarrow> (if k = ''start_date'' then d\<lparr>ann_start_date := None\<rparr> else d)
      | (k, BDate t) \<Rightarrow>
          (if k = ''start_date'' then d\<lparr>ann_start_date := Some t\<rparr>
           else if k = ''expiration_date'' then d\<lparr>ann_expiration_date := t\<rparr>
           else if k = ''created_at'' then d\<lparr>ann_created_at := t\<rparr>
           else d)
      | (k, BObjectId i) \<Rightarrow> d)"

subsection \<open>Queries\<close>

text \<open>
  The store keeps a date as a point on the UTC time line: an aware value is moved
  by its offset, a naive value is read as UTC. Queries and sorting compare these
  points, so they never raise.
\<close>

definition utc_micros :: "datetime \<Rightarrow> int" where
  "utc_micros t = wall_micros t - (case tzinfo t of None \<Rightarrow> 0 | Some off \<Rightarrow> off)"

text \<open>
  The filters the router builds: \<^verbatim>\<open>{"$and": [...]}\<close>, \<^verbatim>\<open>{"$or": [...]}\<close>,
  \<^verbatim>\<open>{key: value}\<close>, \<^verbatim>\<open>{key: {"$gt": date}}\<close> and \<^verbatim>\<open>{key: {"$lte": date}}\<close>.
  A filter \<^verbatim>\<open>{key: None}\<close> matches a document whose field is \<^verbatim>\<open>None\<close> or missing;
  a comparison with a date matches only a field that holds a date.
\<close>

datatype query =
    And "query list"
  | Or "query list"
  | Field_is string bson
  | Field_gt string datetime
  | Field_lte string datetime

fun matches :: "query \<Rightarrow> announcement \<Rightarrow> bool" where
  "matches (And qs) d = list_all (\<lambda>q. matches q d) qs"
| "matches (Or qs) d = list_ex (\<lambda>q. matches q d) qs"
| "matches (Field_is k v) d =
     (case (get_field d k, v) of
        (BDate a, BDate b) \<Rightarrow> utc_micros a = utc_micros b
      | (x, y) \<Rightarrow> x = y)"
| "matches (Field_gt k t) d =
     (case get_field d k of BDate x \<Rightarrow> utc_micros x > utc_micros t | _ \<Rightarrow> False)"
| "matches (Field_lte k t) d =
     (case get_field d k of BDate x \<Rightarrow> utc_micros x \<le> utc_micros t | _ \<Rightarrow> False)"

subsection \<open>Collections\<close>

text \<open>
  Modelled from the spec: the record store. The router imports
  \<^verbatim>\<open>announcements_collection\<close> and \<^verbatim>\<open>teachers_collection\<close> from the package's
  \<^verbatim>\<open>database\<close> module, which is not among the sources. The spec gives the store's
  contract: insert(record), find-one(id), find-many(predicate, sort-key,
  direction), update-one(id, partial-fields), delete-one(id), and for the
  credential store find-one(username). A collection is the list of its documents
  in the store's own order; it keeps a record as it is written. Of a teacher
  document only its \<^verbatim>\<open>_id\<close>, the username, is read.
\<close>

record store =
  announcements_collection :: "announcement list"
  teachers_collection :: "string list"

definition collection_find :: "announcement list \<Rightarrow> query \<Rightarrow> announcement list" where
  "collection_find docs q = filter (matches q) docs"

text \<open>\<^verbatim>\<open>.sort("created_at", -1)\<close>: latest first; equal keys keep the store's order.\<close>

definition sort_created_at_desc :: "announcement list \<Rightarrow> announcement list" where
  "sort_created_at_desc docs = sort_key (\<lambda>d. - utc_micros (ann_created_at d)) docs"

definition find_one :: "announcement list \<Rightarrow> query \<Rightarrow> announcement option" where
  "find_one docs q = List.find (matches q) docs"

definition insert_one :: "announcement list \<Rightarrow> announcement \<Rightarrow> announcement list" where
  "insert_one docs d = docs @ [d]"

fun update_one :: "announcement list \<Rightarrow> query \<Rightarrow> (string \<times> bson) list \<Rightarrow> announcement list" where
  "update_one [] q upd = []"
| "update_one (d # ds) q upd =
     (if matches q d then fold set_field upd d # ds else d # update_one ds q upd)"

fun delete_one :: "announcement list \<Rightarrow> query \<Rightarrow> announcement list" where
  "delete_one [] q = []"
| "delete_one (d # ds) q = (if matches q d then ds else d # delete_one ds q)"

definition find_teacher :: "string list \<Rightarrow> string \<Rightarrow> string option" where
  "find_teacher teachers username = List.find (\<lambda>t. t = username) teachers"

section \<open>The announcements router\<close>

text \<open>
  What a handler returns for one announcement: the document with \<^verbatim>\<open>_id\<close> turned
  into a string and every date into its \<^verbatim>\<open>isoformat()\<close>. Each handler spells these
  four assignments out; \<open>to_response\<close> is that block.
\<close>

record response =
  resp_id :: string
  resp_message :: string
  resp_start_date :: "string option"
  resp_expiration_date :: string
  resp_created_at :: string

definition to_response :: "announcement \<Rightarrow> response" where
  "to_response a =
     \<lparr>resp_id = str_of (ann_id a),
      resp_message = ann_message a,
      resp_start_date = map_option isoformat (ann_start_date a),
      resp_expiration_date = isoformat (ann_expiration_date a),
      resp_created_at = isoformat (ann_created_at a)\<rparr>"

text \<open>
  The authentication block every handler but \<^verbatim>\<open>get_active_announcements\<close> starts
  with; \<open>Some e\<close> is the exception it raises.
\<close>

definition check_teacher :: "store \<Rightarrow> string option \<Rightarrow> pyerr option" where
  "check_teacher db teacher_username =
     (if \<not> truthy teacher_username
      then Some (HTTPException 401 ''Authentication required for this action'')
      else if find_teacher (teachers_collection db) (the teacher_username) = None
      then Some (HTTPException 401 ''Invalid teacher credentials'')
      else None)"

text \<open>The two \<^verbatim>\<open>try\<close> blocks that parse the dates, shared by create and update.\<close>

definition parse_expiration_date :: "string \<Rightarrow> pyerr + datetime" where
  "parse_expiration_date expiration_date =
     (case fromisoformat (replace expiration_date CHR ''Z'' ''+00:00'') of
        None \<Rightarrow> Inl (HTTPException 400 ''Invalid expiration_date format. Use ISO format.'')
      | Some exp_date \<Rightarrow> Inr exp_date)"

definition parse_start_date :: "string option \<Rightarrow> pyerr + datetime option" where
  "parse_start_date start_date =
     (if truthy start_date
      then (case fromisoformat (replace (the start_date) CHR ''Z'' ''+00:00'') of
              None \<Rightarrow> Inl (HTTPException 400 ''Invalid start_date format. Use ISO format.'')
            | Some start_dt \<Rightarrow> Inr (Some start_dt))
      else Inr None)"

text \<open>
  \<^verbatim>\<open>start_dt and start_dt >= exp_date\<close>: a \<^verbatim>\<open>datetime\<close> is always true, so the
  comparison runs exactly when \<open>start_dt\<close> is not \<^verbatim>\<open>None\<close>.
\<close>

definition start_not_before :: "datetime option \<Rightarrow> datetime \<Rightarrow> pyerr + bool" where
  "start_not_before start_dt exp_date =
     (case start_dt of None \<Rightarrow> Inr False | Some s \<Rightarrow> datetime_ge s exp_date)"

definition active_query :: "datetime \<Rightarrow> query" where
  "active_query now =
     And [Field_gt ''expiration_date'' now,
          Or [Field_is ''start_date'' BNull, Field_lte ''start_date'' now]]"

text \<open>
  \<^verbatim>\<open>get_active_announcements()\<close>. \<open>clock\<close> is the reading \<^verbatim>\<open>datetime.now()\<close> returns.
\<close>

definition get_active_announcements :: "store \<Rightarrow> datetime \<Rightarrow> (pyerr + response list) \<times> store" where
  "get_active_announcements db clock =
     (let now = datetime_now clock;
          query = active_query now
      in (Inr (map to_response
                 (sort_created_at_desc (collection_find (announcements_collection db) query))),
          db))"

definition get_all_announcements :: "store \<Rightarrow> string option \<Rightarrow> (pyerr + response list) \<times> store" where
  "get_all_announcements db teacher_username =
     (case check_teacher db teacher_username of
        Some e \<Rightarrow> (Inl e, db)
      | None \<Rightarrow>
          (Inr (map to_response
                  (sort_created_at_desc (collection_find (announcements_collection db) (And [])))),
           db))"

text \<open>
  \<^verbatim>\<open>create_announcement\<close>. \<open>clock1\<close> and \<open>clock2\<close> are the readings of its two calls
  of \<^verbatim>\<open>datetime.now()\<close> (the future check and \<^verbatim>\<open>created_at\<close>); \<open>inserted_id\<close> is the
  identifier the store assigns to the new document.
\<close>

definition create_announcement ::
  "store \<Rightarrow> objectid \<Rightarrow> datetime \<Rightarrow> datetime \<Rightarrow> string \<Rightarrow> string \<Rightarrow> string option \<Rightarrow> string option
     \<Rightarrow> (pyerr + response) \<times> store" where
  "create_announcement db inserted_id clock1 clock2 message expiration_date start_date teacher_username =
     (case check_teacher db teacher_username of
        Some e \<Rightarrow> (Inl e, db)
      | None \<Rightarrow>
     (if message = [] \<or> length (strip message) = 0
      then (Inl (HTTPException 400 ''Message cannot be empty''), db)
      else
     (case parse_expiration_date expiration_date of
        Inl e \<Rightarrow> (Inl e, db)
      | Inr exp_date \<Rightarrow>
     (case parse_start_date start_date of
        Inl e \<Rightarrow> (Inl e, db)
      | Inr start_dt \<Rightarrow>
     (case datetime_le exp_date (datetime_now clock1) of
        Inl e \<Rightarrow> (Inl e, db)
      | Inr expired \<Rightarrow>
     (if expired
      then (Inl (HTTPException 400 ''Expiration date must be in the future''), db)
      else
     (case start_not_before start_dt exp_date of
        Inl e \<Rightarrow> (Inl e, db)
      | Inr late \<Rightarrow>
     (if late
      then (Inl (HTTPException 400 ''Start date must be before expiration date''), db)
      else
        (let announcement =
               \<lparr>ann_id = inserted_id,
                ann_message = strip message,
                ann_start_date = start_dt,
                ann_expiration_date = exp_date,
                ann_created_at = datetime_now clock2\<rparr>
         in (Inr (to_response announcement),
             db\<lparr>announcements_collection :=
                  insert_one (announcements_collection db) announcement\<rparr>))))))))))"

text \<open>
  \<^verbatim>\<open>update_announcement\<close>. It reads no clock. The document it returns is read
  again from the store after the write; were it gone, subscripting \<^verbatim>\<open>None\<close>
  would raise \<^verbatim>\<open>TypeError\<close>.
\<close>

definition update_announcement ::
  "store \<Rightarrow> string \<Rightarrow> string \<Rightarrow> string \<Rightarrow> string option \<Rightarrow> string option
     \<Rightarrow> (pyerr + response) \<times> store" where
  "update_announcement db announcement_id message expiration_date start_date teacher_username =
     (case check_teacher db teacher_username of
        Some e \<Rightarrow> (Inl e, db)
      | None \<Rightarrow>
     (case ObjectId announcement_id of
        None \<Rightarrow> (Inl (HTTPException 400 ''Invalid announcement ID format''), db)
      | Some obj_id \<Rightarrow>
     (case find_one (announcements_collection db) (Field_is ''_id'' (BObjectId obj_id)) of
        None \<Rightarrow> (Inl (HTTPException 404 ''Announcement not found''), db)
      | Some announcement \<Rightarrow>
     (if message = [] \<or> length (strip message) = 0
      then (Inl (HTTPException 400 ''Message cannot be empty''), db)
      else
     (case parse_expiration_date expiration_date of
        Inl e \<Rightarrow> (Inl e, db)
      | Inr exp_date \<Rightarrow>
     (case parse_start_date start_date of
        Inl e \<Rightarrow> (Inl e, db)
      | Inr start_dt \<Rightarrow>
     (case start_not_before start_dt exp_date of
        Inl e \<Rightarrow> (Inl e, db)
      | Inr late \<Rightarrow>
     (if late
      then (Inl (HTTPException 400 ''Start date must be before expiration date''), db)
      else
        (let update_data =
               [(''message'', BString (strip message)),
                (''start_date'', (case start_dt of None \<Rightarrow> BNull | Some t \<Rightarrow> BDate t)),
                (''expiration_date'', BDate exp_date)];
             db' = db\<lparr>announcements_collection :=
                        update_one (announcements_collection db)
                          (Field_is ''_id'' (BObjectId obj_id)) update_data\<rparr>
         in (case find_one (announcements_collection db') (Field_is ''_id'' (BObjectId obj_id)) of
               None \<Rightarrow> (Inl TypeError, db')
             | Some updated_announcement \<Rightarrow> (Inr (to_response updated_announcement), db')))))))))))"

definition delete_announcement ::
  "store \<Rightarrow> string \<Rightarrow> string option \<Rightarrow> (pyerr + (string \<times> string) list) \<times> store" where
  "delete_announcement db announcement_id teacher_username =
     (case check_teacher db teacher_username of
        Some e \<Rightarrow> (Inl e, db)
      | None \<Rightarrow>
     (case ObjectId announcement_id of
        None \<Rightarrow> (Inl (HTTPException 400 ''Invalid announcement ID format''), db)
      | Some obj_id \<Rightarrow>
     (case find_one (announcements_collection db) (Field_is ''_id'' (BObjectId obj_id)) of
        None \<Rightarrow> (Inl (HTTPException 404 ''Announcement not found''), db)
      | Some announcement \<Rightarrow>
          (Inr [(''message'', ''Announcement deleted successfully'')],
           db\<lparr>announcements_collection :=
                delete_one (announcements_collection db) (Field_is ''_id'' (BObjectId obj_id))\<rparr>))))"

text \<open>
  The status the framework answers with: the handler's own \<^verbatim>\<open>status_code\<close> for an
  \<^verbatim>\<open>HTTPException\<close>, 500 for an exception no handler catches, 200 for a return.
\<close>

definition http_status :: "pyerr + 'a \<Rightarrow> nat" where
  "http_status r =
     (case r of
        Inl (HTTPException status_code detail) \<Rightarrow> status_code
      | Inl TypeError \<Rightarrow> 500
      | Inr v \<Rightarrow> 200)"

section \<open>Properties\<close>

text \<open>
  The invariants of the data model, for one stored announcement: the message is
  not empty, holds a character that is not white space, is stored trimmed, and a
  start date, when there is one, compares strictly before the expiration date.
\<close>

definition data_model_invariant :: "announcement \<Rightarrow> bool" where
  "data_model_invariant a =
     (ann_message a \<noteq> []
      \<and> (\<exists>c\<in>set (ann_message a). \<not> py_isspace c)
      \<and> strip (ann_message a) = ann_message a
      \<and> (case ann_start_date a of
            None \<Rightarrow> True
          | Some s \<Rightarrow> datetime_lt s (ann_expiration_date a) = Inr True))"

text \<open>
  An authenticated caller: a credential is supplied, is not empty, and is the
  \<^verbatim>\<open>_id\<close> of a teacher document.
\<close>

definition authenticated :: "store \<Rightarrow> string option \<Rightarrow> bool" where
  "authenticated db teacher_username =
     (case teacher_username of
        None \<Rightarrow> False
      | Some u \<Rightarrow> u \<noteq> [] \<and> u \<in> set (teachers_collection db))"

text \<open>
  The stores the handlers can produce, from a store without announcements, by any
  sequence of calls with any arguments.
\<close>

inductive reachable :: "store \<Rightarrow> bool" where
  initial: "reachable \<lparr>announcements_collection = [], teachers_collection = teachers\<rparr>"
| after_get_active: "reachable db \<Longrightarrow> reachable (snd (get_active_announcements db clock))"
| after_get_all: "reachable db \<Longrightarrow> reachable (snd (get_all_announcements db teacher_username))"
| after_create:
    "reachable db \<Longrightarrow>
     reachable (snd (create_announcement db inserted_id clock1 clock2 message expiration_date
                       start_date teacher_username))"
| after_update:
    "reachable db \<Longrightarrow>
     reachable (snd (update_announcement db announcement_id message expiration_date
                       start_date teacher_username))"
| after_delete:
    "reachable db \<Longrightarrow> reachable (snd (delete_announcement db announcement_id teacher_username))"

text \<open>
  Data for the worked instances below: naive dates, a store with one teacher, and
  three stored announcements (one running, one expired, one not yet started).
\<close>

abbreviation naive :: "nat \<Rightarrow> nat \<Rightarrow> nat \<Rightarrow> nat \<Rightarrow> datetime" where
  "naive y m d hh \<equiv>
     \<lparr>year = y, month = m, day = d, hour = hh, minute = 0, second = 0, microsecond = 0,
      tzinfo = None\<rparr>"

abbreviation oid1 :: objectid where "oid1 \<equiv> Oid ''65a000000000000000000001''"
abbreviation oid2 :: objectid where "oid2 \<equiv> Oid ''65a000000000000000000002''"
abbreviation oid3 :: objectid where "oid3 \<equiv> Oid ''65a000000000000000000003''"

abbreviation running_ann :: announcement where
  "running_ann \<equiv>
     \<lparr>ann_id = oid1, ann_message = ''Exam tomorrow'', ann_start_date = None,
      ann_expiration_date = naive 2099 1 1 0, ann_created_at = naive 2026 1 10 8\<rparr>"

abbreviation expired_ann :: announcement where
  "expired_ann \<equiv>
     \<lparr>ann_id = oid2, ann_message = ''Bake sale'', ann_start_date = None,
      ann_expiration_date = naive 2026 2 1 0, ann_created_at = naive 2026 1 20 8\<rparr>"

abbreviation upcoming_ann :: announcement where
  "upcoming_ann \<equiv>
     \<lparr>ann_id = oid3, ann_message = ''Summer break'', ann_start_date = Some (naive 2027 6 1 0),
      ann_expiration_date = naive 2027 9 1 0, ann_created_at = naive 2026 1 30 8\<rparr>"

abbreviation school :: store where
  "school \<equiv>
     \<lparr>announcements_collection = [running_ann, expired_ann, upcoming_ann],
      teachers_collection = [''mrodriguez'']\<rparr>"

abbreviation empty_school :: store where
  "empty_school \<equiv> \<lparr>announcements_collection = [], teachers_collection = [''mrodriguez'']\<rparr>"

subsection \<open>Strings and dates\<close>

lemma strip_Nil: "strip [] = []"
  by (simp add: strip_def)

lemma strip_no_trailing_space: "strip s \<noteq> [] \<Longrightarrow> \<not> py_isspace (last (strip s))"
proof -
  assume ne: "strip s \<noteq> []"
  let ?u = "dropWhile py_isspace (rev (dropWhile py_isspace s))"
  from ne have u: "?u \<noteq> []" by (simp add: strip_def)
  then have "\<not> py_isspace (hd ?u)" by (rule hd_dropWhile)
  then show ?thesis using u by (simp add: strip_def last_rev)
qed

lemma strip_no_leading_space: "strip s \<noteq> [] \<Longrightarrow> \<not> py_isspace (hd (strip s))"
proof -
  assume ne: "strip s \<noteq> []"
  let ?t = "dropWhile py_isspace s"
  let ?u = "dropWhile py_isspace (rev ?t)"
  from ne have u: "?u \<noteq> []" by (simp add: strip_def)
  have "dropWhile py_isspace (rev ([] :: string)) = []" by simp
  with u have t: "?t \<noteq> []" by metis
  then have ht: "\<not> py_isspace (hd ?t)" by (rule hd_dropWhile)
  have "?t = rev ?u @ rev (takeWhile py_isspace (rev ?t))"
    by (metis rev_append rev_rev_ident takeWhile_dropWhile_id)
  with u have "hd ?t = hd (rev ?u)" by (metis hd_append2 rev_is_Nil_conv)
  with ht show ?thesis by (simp add: strip_def)
qed

lemma strip_has_nonspace: "strip s \<noteq> [] \<Longrightarrow> \<exists>c\<in>set (strip s). \<not> py_isspace c"
  using strip_no_leading_space [of s] by (metis hd_in_set)

lemma strip_fixed:
  "t \<noteq> [] \<Longrightarrow> \<not> py_isspace (hd t) \<Longrightarrow> \<not> py_isspace (last t) \<Longrightarrow> strip t = t"
proof -
  assume a: "t \<noteq> []" "\<not> py_isspace (hd t)" "\<not> py_isspace (last t)"
  then have 1: "dropWhile py_isspace t = t" by (cases t) simp_all
  from a have "rev t \<noteq> []" "\<not> py_isspace (hd (rev t))" by (simp_all add: hd_rev)
  then have "dropWhile py_isspace (rev t) = rev t" by (cases "rev t") simp_all
  with 1 show ?thesis by (simp add: strip_def)
qed

lemma strip_idem: "strip (strip s) = strip s"
proof (cases "strip s = []")
  case True
  with strip_Nil show ?thesis by simp
next
  case False
  then show ?thesis
    by (intro strip_fixed strip_no_leading_space strip_no_trailing_space)
qed

lemma strip_nonempty_arg: "strip message \<noteq> [] \<Longrightarrow> message \<noteq> []"
  using strip_Nil by blast

lemma datetime_ge_False_lt: "datetime_ge a b = Inr False \<Longrightarrow> datetime_lt a b = Inr True"
  by (auto simp: datetime_ge_def datetime_lt_def split: sum.splits)

lemma datetime_cmp_aware_naive:
  "tzinfo a \<noteq> None \<Longrightarrow> tzinfo b = None \<Longrightarrow> datetime_cmp a b = Inl TypeError"
  by (auto simp: datetime_cmp_def)

lemma tzinfo_datetime_now: "tzinfo (datetime_now clock) = None"
  by (simp add: datetime_now_def)

lemma cmp_tuple_same: "cmp_tuple xs xs = 0"
  by (induction xs) simp_all

lemma datetime_le_same: "datetime_le a a = Inr True"
  by (simp add: datetime_le_def datetime_cmp_def cmp_tuple_same)

lemma datetime_le_aware_now:
  "tzinfo exp_date \<noteq> None \<Longrightarrow> datetime_le exp_date (datetime_now clock) = Inl TypeError"
  by (simp add: datetime_le_def datetime_cmp_aware_naive tzinfo_datetime_now)

lemma datetime_cmp_naive:
  "tzinfo a = None \<Longrightarrow> tzinfo b = None \<Longrightarrow> datetime_cmp a b = Inr (cmp_tuple (date_fields a) (date_fields b))"
  by (simp add: datetime_cmp_def)

lemma datetime_le_naive:
  "tzinfo a = None \<Longrightarrow> tzinfo b = None \<Longrightarrow> \<exists>c. datetime_le a b = Inr c"
  by (simp add: datetime_le_def datetime_cmp_naive)

lemma datetime_cmp_Inl: "datetime_cmp a b = Inl e \<Longrightarrow> e = TypeError"
  by (auto simp: datetime_cmp_def Let_def split: if_splits option.splits)

lemma datetime_le_Inl: "datetime_le a b = Inl e \<Longrightarrow> e = TypeError"
  by (auto simp: datetime_le_def split: sum.splits dest: datetime_cmp_Inl)

lemma start_not_before_Inl: "start_not_before start_dt exp_date = Inl e \<Longrightarrow> e = TypeError"
  by (auto simp: start_not_before_def datetime_ge_def split: option.splits sum.splits
      dest: datetime_cmp_Inl)

subsection \<open>Parsing the arguments\<close>

lemma parse_expiration_date_Some:
  "fromisoformat (replace expiration_date CHR ''Z'' ''+00:00'') = Some exp_date \<Longrightarrow>
   parse_expiration_date expiration_date = Inr exp_date"
  by (simp add: parse_expiration_date_def)

lemma parse_expiration_date_None:
  "fromisoformat (replace expiration_date CHR ''Z'' ''+00:00'') = None \<Longrightarrow>
   parse_expiration_date expiration_date
     = Inl (HTTPException 400 ''Invalid expiration_date format. Use ISO format.'')"
  by (simp add: parse_expiration_date_def)

lemma parse_expiration_date_cases:
  "parse_expiration_date expiration_date
     = Inl (HTTPException 400 ''Invalid expiration_date format. Use ISO format.'')
   \<or> (\<exists>exp_date. parse_expiration_date expiration_date = Inr exp_date)"
  by (simp add: parse_expiration_date_def split: option.split)

lemma parse_start_date_Some:
  "s \<noteq> [] \<Longrightarrow> fromisoformat (replace s CHR ''Z'' ''+00:00'') = Some start_dt \<Longrightarrow>
   parse_start_date (Some s) = Inr (Some start_dt)"
  by (simp add: parse_start_date_def truthy_def)

lemma parse_start_date_None:
  "s \<noteq> [] \<Longrightarrow> fromisoformat (replace s CHR ''Z'' ''+00:00'') = None \<Longrightarrow>
   parse_start_date (Some s) = Inl (HTTPException 400 ''Invalid start_date format. Use ISO format.'')"
  by (simp add: parse_start_date_def truthy_def)

lemma parse_start_date_absent: "\<not> truthy start_date \<Longrightarrow> parse_start_date start_date = Inr None"
  by (simp add: parse_start_date_def)

subsection \<open>The store\<close>

lemma matches_id: "matches (Field_is ''_id'' (BObjectId i)) d = (ann_id d = i)"
  by (simp add: get_field_def)

lemma matches_active_query:
  "matches (active_query now) =
     (\<lambda>a. utc_micros now < utc_micros (ann_expiration_date a)
          \<and> (case ann_start_date a of None \<Rightarrow> True | Some s \<Rightarrow> utc_micros s \<le> utc_micros now))"
  by (rule ext) (simp add: active_query_def get_field_def split: option.split)

lemma find_one_split:
  "find_one docs q = Some d \<Longrightarrow>
   \<exists>pre post. docs = pre @ d # post \<and> (\<forall>x\<in>set pre. \<not> matches q x) \<and> matches q d"
proof (induction docs)
  case Nil
  then show ?case by (simp add: find_one_def)
next
  case (Cons a docs)
  show ?case
  proof (cases "matches q a")
    case True
    with Cons.prems have "a = d" by (simp add: find_one_def)
    with True have "a # docs = [] @ d # docs \<and> (\<forall>x\<in>set []. \<not> matches q x) \<and> matches q d"
      by simp
    then show ?thesis by blast
  next
    case False
    with Cons.prems have "find_one docs q = Some d" by (simp add: find_one_def)
    from Cons.IH [OF this] obtain pre post where
      "docs = pre @ d # post" "\<forall>x\<in>set pre. \<not> matches q x" "matches q d" by blast
    with False have
      "a # docs = (a # pre) @ d # post \<and> (\<forall>x\<in>set (a # pre). \<not> matches q x) \<and> matches q d"
      by simp
    then show ?thesis by blast
  qed
qed

lemma update_one_split:
  "\<forall>x\<in>set pre. \<not> matches q x \<Longrightarrow> matches q d \<Longrightarrow>
   update_one (pre @ d # post) q upd = pre @ fold set_field upd d # post"
  by (induction pre) simp_all

lemma find_one_first:
  "\<forall>x\<in>set pre. \<not> matches q x \<Longrightarrow> matches q d \<Longrightarrow> find_one (pre @ d # post) q = Some d"
  by (induction pre) (simp_all add: find_one_def)

lemma fold_update_data:
  "fold set_field
     [(''message'', BString m),
      (''start_date'', (case sd of None \<Rightarrow> BNull | Some t \<Rightarrow> BDate t)),
      (''expiration_date'', BDate e)] d
   = d\<lparr>ann_message := m, ann_start_date := sd, ann_expiration_date := e\<rparr>"
  by (cases sd) (simp_all add: set_field_def)

lemma set_delete_one: "set (delete_one docs q) \<subseteq> set docs"
  by (induction docs) auto

subsection \<open>Authentication\<close>

lemma find_teacher_None: "find_teacher ts u = None \<longleftrightarrow> u \<notin> set ts"
  by (auto simp: find_teacher_def find_None_iff)

lemma check_teacher_absent:
  "\<not> truthy u \<Longrightarrow>
   check_teacher db u = Some (HTTPException 401 ''Authentication required for this action'')"
  by (simp add: check_teacher_def)

lemma check_teacher_unknown:
  "truthy u \<Longrightarrow> the u \<notin> set (teachers_collection db) \<Longrightarrow>
   check_teacher db u = Some (HTTPException 401 ''Invalid teacher credentials'')"
  by (simp add: check_teacher_def find_teacher_None)

lemma check_teacher_known:
  "u \<noteq> [] \<Longrightarrow> u \<in> set (teachers_collection db) \<Longrightarrow> check_teacher db (Some u) = None"
  by (simp add: check_teacher_def find_teacher_None truthy_def)

lemma check_teacher_None_iff: "check_teacher db u = None \<longleftrightarrow> authenticated db u"
  by (cases u) (auto simp: check_teacher_def authenticated_def truthy_def find_teacher_None)

lemma check_teacher_authenticated: "authenticated db u \<Longrightarrow> check_teacher db u = None"
  by (simp add: check_teacher_None_iff)

lemma check_teacher_Some:
  "\<not> authenticated db u \<Longrightarrow>
   check_teacher db u
     = Some (HTTPException 401
               (if truthy u then ''Invalid teacher credentials''
                else ''Authentication required for this action''))"
  by (cases u) (auto simp: check_teacher_def authenticated_def truthy_def find_teacher_None)

lemma get_all_announcements_refused:
  "check_teacher db u = Some e \<Longrightarrow> get_all_announcements db u = (Inl e, db)"
  by (simp add: get_all_announcements_def)

lemma create_announcement_refused:
  "check_teacher db u = Some e \<Longrightarrow>
   create_announcement db inserted_id clock1 clock2 message expiration_date start_date u = (Inl e, db)"
  by (simp add: create_announcement_def)

lemma update_announcement_refused:
  "check_teacher db u = Some e \<Longrightarrow>
   update_announcement db announcement_id message expiration_date start_date u = (Inl e, db)"
  by (simp add: update_announcement_def)

lemma delete_announcement_refused:
  "check_teacher db u = Some e \<Longrightarrow> delete_announcement db announcement_id u = (Inl e, db)"
  by (simp add: delete_announcement_def)

subsection \<open>What a successful call has passed\<close>

lemma create_announcement_Inr:
  assumes "create_announcement db inserted_id clock1 clock2 message expiration_date start_date
             teacher_username = (Inr r, db')"
  shows "\<exists>exp_date start_dt.
     check_teacher db teacher_username = None
   \<and> strip message \<noteq> []
   \<and> parse_expiration_date expiration_date = Inr exp_date
   \<and> parse_start_date start_date = Inr start_dt
   \<and> datetime_le exp_date (datetime_now clock1) = Inr False
   \<and> start_not_before start_dt exp_date = Inr False
   \<and> db' = db\<lparr>announcements_collection := insert_one (announcements_collection db)
         \<lparr>ann_id = inserted_id, ann_message = strip message, ann_start_date = start_dt,
           ann_expiration_date = exp_date, ann_created_at = datetime_now clock2\<rparr>\<rparr>
   \<and> r = to_response \<lparr>ann_id = inserted_id, ann_message = strip message,
           ann_start_date = start_dt, ann_expiration_date = exp_date,
           ann_created_at = datetime_now clock2\<rparr>"
  using assms
  by (auto simp: create_announcement_def Let_def split: option.splits sum.splits if_splits)

lemma update_announcement_Inr:
  assumes "update_announcement db announcement_id message expiration_date start_date
             teacher_username = (Inr r, db')"
  shows "\<exists>obj_id old exp_date start_dt new.
     check_teacher db teacher_username = None
   \<and> ObjectId announcement_id = Some obj_id
   \<and> find_one (announcements_collection db) (Field_is ''_id'' (BObjectId obj_id)) = Some old
   \<and> strip message \<noteq> []
   \<and> parse_expiration_date expiration_date = Inr exp_date
   \<and> parse_start_date start_date = Inr start_dt
   \<and> start_not_before start_dt exp_date = Inr False
   \<and> db' = db\<lparr>announcements_collection :=
               update_one (announcements_collection db) (Field_is ''_id'' (BObjectId obj_id))
                 [(''message'', BString (strip message)),
                  (''start_date'', (case start_dt of None \<Rightarrow> BNull | Some t \<Rightarrow> BDate t)),
                  (''expiration_date'', BDate exp_date)]\<rparr>
   \<and> find_one (announcements_collection db') (Field_is ''_id'' (BObjectId obj_id)) = Some new
   \<and> r = to_response new"
  using assms
  by (auto simp: update_announcement_def Let_def split: option.splits sum.splits if_splits)

lemma create_announcement_aware_expiration:
  assumes "authenticated db teacher_username"
    and "strip message \<noteq> []"
    and "fromisoformat (replace expiration_date CHR ''Z'' ''+00:00'') = Some exp_date"
    and "tzinfo exp_date \<noteq> None"
    and "parse_start_date start_date = Inr start_dt"
  shows "create_announcement db inserted_id clock1 clock2 message expiration_date start_date
           teacher_username = (Inl TypeError, db)"
  using assms(2-) strip_nonempty_arg [OF assms(2)]
  by (simp add: create_announcement_def check_teacher_authenticated [OF assms(1)]
      parse_expiration_date_def datetime_le_aware_now)

lemma create_announcement_expired:
  assumes "authenticated db teacher_username"
    and "fromisoformat (replace expiration_date CHR ''Z'' ''+00:00'') = Some exp_date"
    and "datetime_le exp_date (datetime_now clock1) = Inr True"
  shows "http_status (fst (create_announcement db inserted_id clock1 clock2 message expiration_date
                             start_date teacher_username)) = 400
       \<and> snd (create_announcement db inserted_id clock1 clock2 message expiration_date
                start_date teacher_username) = db"
  using assms(2-)
  by (cases "parse_start_date start_date")
     (auto simp: create_announcement_def check_teacher_authenticated [OF assms(1)]
        parse_expiration_date_def parse_start_date_def http_status_def
        split: option.splits if_splits)

text \<open>An expiration date equal to the reading of the clock is refused.\<close>

lemma create_announcement_expiring_now:
  assumes "authenticated db teacher_username"
    and "fromisoformat (replace expiration_date CHR ''Z'' ''+00:00'') = Some (datetime_now clock1)"
  shows "http_status (fst (create_announcement db inserted_id clock1 clock2 message expiration_date
                             start_date teacher_username)) = 400
       \<and> snd (create_announcement db inserted_id clock1 clock2 message expiration_date
                start_date teacher_username) = db"
  using assms datetime_le_same by (rule create_announcement_expired)

subsection \<open>Update of a record that exists\<close>

lemma find_one_update_one:
  assumes "find_one docs (Field_is ''_id'' (BObjectId i)) = Some old"
  shows "\<exists>pre post.
      docs = pre @ old # post
    \<and> (\<forall>d\<in>set pre. ann_id d \<noteq> i) \<and> ann_id old = i
    \<and> update_one docs (Field_is ''_id'' (BObjectId i))
         [(''message'', BString m),
          (''start_date'', (case sd of None \<Rightarrow> BNull | Some t \<Rightarrow> BDate t)),
          (''expiration_date'', BDate e)]
       = pre @ old\<lparr>ann_message := m, ann_start_date := sd, ann_expiration_date := e\<rparr> # post
    \<and> find_one (pre @ old\<lparr>ann_message := m, ann_start_date := sd, ann_expiration_date := e\<rparr> # post)
         (Field_is ''_id'' (BObjectId i))
       = Some (old\<lparr>ann_message := m, ann_start_date := sd, ann_expiration_date := e\<rparr>)"
proof -
  let ?q = "Field_is ''_id'' (BObjectId i)"
  let ?new = "old\<lparr>ann_message := m, ann_start_date := sd, ann_expiration_date := e\<rparr>"
  from find_one_split [OF assms] obtain pre post where
    docs: "docs = pre @ old # post" and pre: "\<forall>x\<in>set pre. \<not> matches ?q x" and old: "matches ?q old"
    by blast
  from pre have ids: "\<forall>d\<in>set pre. ann_id d \<noteq> i" by (simp add: matches_id del: matches.simps)
  from old have id: "ann_id old = i" by (simp add: matches_id del: matches.simps)
  have upd: "update_one docs ?q
         [(''message'', BString m),
          (''start_date'', (case sd of None \<Rightarrow> BNull | Some t \<Rightarrow> BDate t)),
          (''expiration_date'', BDate e)] = pre @ ?new # post"
    unfolding docs by (simp only: update_one_split [OF pre old] fold_update_data)
  from id have "matches ?q ?new" by (simp add: matches_id del: matches.simps)
  then have "find_one (pre @ ?new # post) ?q = Some ?new"
    by (rule find_one_first [OF pre])
  with docs ids id upd show ?thesis by blast
qed

lemma update_announcement_valid:
  assumes "authenticated db teacher_username"
    and "ObjectId announcement_id = Some obj_id"
    and "find_one (announcements_collection db) (Field_is ''_id'' (BObjectId obj_id)) = Some old"
    and "strip message \<noteq> []"
    and "parse_expiration_date expiration_date = Inr exp_date"
    and "parse_start_date start_date = Inr start_dt"
    and "start_not_before start_dt exp_date = Inr False"
  shows "update_announcement db announcement_id message expiration_date start_date teacher_username
       = (Inr (to_response (old\<lparr>ann_message := strip message, ann_start_date := start_dt,
                                  ann_expiration_date := exp_date\<rparr>)),
          db\<lparr>announcements_collection :=
               update_one (announcements_collection db) (Field_is ''_id'' (BObjectId obj_id))
                 [(''message'', BString (strip message)),
                  (''start_date'', (case start_dt of None \<Rightarrow> BNull | Some t \<Rightarrow> BDate t)),
                  (''expiration_date'', BDate exp_date)]\<rparr>)"
proof -
  from find_one_update_one [OF assms(3), of "strip message" start_dt exp_date]
  have again: "find_one
      (update_one (announcements_collection db) (Field_is ''_id'' (BObjectId obj_id))
         [(''message'', BString (strip message)),
          (''start_date'', (case start_dt of None \<Rightarrow> BNull | Some t \<Rightarrow> BDate t)),
          (''expiration_date'', BDate exp_date)])
      (Field_is ''_id'' (BObjectId obj_id))
    = Some (old\<lparr>ann_message := strip message, ann_start_date := start_dt,
                 ann_expiration_date := exp_date\<rparr>)"
    by auto
  from assms(4) have "message \<noteq> []" by (rule strip_nonempty_arg)
  with assms(2-) again show ?thesis
    by (simp add: update_announcement_def check_teacher_authenticated [OF assms(1)])
qed

text \<open>An update that raises leaves the store as it was.\<close>

lemma update_announcement_Inl:
  assumes "update_announcement db announcement_id message expiration_date start_date
             teacher_username = (Inl e, db')"
  shows "db' = db"
proof (cases "\<exists>r st. update_announcement db announcement_id message expiration_date start_date
                        teacher_username = (Inr r, st)")
  case True
  with assms show ?thesis by simp
next
  case False
  show ?thesis
  proof (rule ccontr)
    assume changed: "db' \<noteq> db"
    with assms obtain obj_id old exp_date start_dt where
      passed: "check_teacher db teacher_username = None" "ObjectId announcement_id = Some obj_id"
        "find_one (announcements_collection db) (Field_is ''_id'' (BObjectId obj_id)) = Some old"
        "strip message \<noteq> []" "parse_expiration_date expiration_date = Inr exp_date"
        "parse_start_date start_date = Inr start_dt"
        "start_not_before start_dt exp_date = Inr False"
      by (auto simp: update_announcement_def Let_def strip_Nil
          split: option.splits sum.splits if_splits)
    from passed(1) have "authenticated db teacher_username"
      by (simp add: check_teacher_None_iff)
    from update_announcement_valid [OF this passed(2-)] False show False
      by blast
  qed
qed

lemma create_announcement_Inl:
  assumes "create_announcement db inserted_id clock1 clock2 message expiration_date start_date
             teacher_username = (Inl e, db')"
  shows "db' = db"
  using assms
  by (auto simp: create_announcement_def Let_def split: option.splits sum.splits if_splits)

lemma find_one_after_update:
  assumes "find_one docs (Field_is ''_id'' (BObjectId i)) = Some old"
  shows "find_one
      (update_one docs (Field_is ''_id'' (BObjectId i))
         [(''message'', BString m),
          (''start_date'', (case sd of None \<Rightarrow> BNull | Some t \<Rightarrow> BDate t)),
          (''expiration_date'', BDate e)])
      (Field_is ''_id'' (BObjectId i))
    = Some (old\<lparr>ann_message := m, ann_start_date := sd, ann_expiration_date := e\<rparr>)"
  using find_one_update_one [OF assms, of m sd e] by auto

text \<open>
  For an authenticated caller and the id of a stored record, what is left of
  \<^verbatim>\<open>update_announcement\<close>: the checks on the message and the dates, then the write.
\<close>

lemma update_announcement_exists:
  assumes "authenticated db teacher_username"
    and "ObjectId announcement_id = Some obj_id"
    and "find_one (announcements_collection db) (Field_is ''_id'' (BObjectId obj_id)) = Some old"
  shows "update_announcement db announcement_id message expiration_date start_date teacher_username
     = (if strip message = [] then (Inl (HTTPException 400 ''Message cannot be empty''), db)
        else (case parse_expiration_date expiration_date of
                Inl e \<Rightarrow> (Inl e, db)
              | Inr exp_date \<Rightarrow>
                  (case parse_start_date start_date of
                     Inl e \<Rightarrow> (Inl e, db)
                   | Inr start_dt \<Rightarrow>
                       (case start_not_before start_dt exp_date of
                          Inl e \<Rightarrow> (Inl e, db)
                        | Inr late \<Rightarrow>
                            if late
                            then (Inl (HTTPException 400 ''Start date must be before expiration date''), db)
                            else (Inr (to_response
                                         (old\<lparr>ann_message := strip message,
                                              ann_start_date := start_dt,
                                              ann_expiration_date := exp_date\<rparr>)),
                                  db\<lparr>announcements_collection :=
                                       update_one (announcements_collection db)
                                         (Field_is ''_id'' (BObjectId obj_id))
                                         [(''message'', BString (strip message)),
                                          (''start_date'',
                                           (case start_dt of None \<Rightarrow> BNull | Some t \<Rightarrow> BDate t)),
                                          (''expiration_date'', BDate exp_date)]\<rparr>)))))"
  using assms(2,3)
  by (auto simp: update_announcement_def check_teacher_authenticated [OF assms(1)]
      find_one_after_update [OF assms(3)] strip_Nil split: sum.splits)

lemma create_announcement_authenticated:
  assumes "authenticated db teacher_username"
  shows "create_announcement db inserted_id clock1 clock2 message expiration_date start_date
           teacher_username
     = (if strip message = [] then (Inl (HTTPException 400 ''Message cannot be empty''), db)
        else (case parse_expiration_date expiration_date of
                Inl e \<Rightarrow> (Inl e, db)
              | Inr exp_date \<Rightarrow>
                  (case parse_start_date start_date of
                     Inl e \<Rightarrow> (Inl e, db)
                   | Inr start_dt \<Rightarrow>
                       (case datetime_le exp_date (datetime_now clock1) of
                          Inl e \<Rightarrow> (Inl e, db)
                        | Inr expired \<Rightarrow>
                            if expired
                            then (Inl (HTTPException 400 ''Expiration date must be in the future''), db)
                            else (case start_not_before start_dt exp_date of
                                    Inl e \<Rightarrow> (Inl e, db)
                                  | Inr late \<Rightarrow>
                                      if late
                                      then (Inl (HTTPException 400
                                                   ''Start date must be before expiration date''), db)
                                      else (Inr (to_response
                                                   \<lparr>ann_id = inserted_id,
                                                    ann_message = strip message,
                                                    ann_start_date = start_dt,
                                                    ann_expiration_date = exp_date,
                                                    ann_created_at = datetime_now clock2\<rparr>),
                                            db\<lparr>announcements_collection :=
                                                 insert_one (announcements_collection db)
                                                   \<lparr>ann_id = inserted_id,
                                                    ann_message = strip message,
                                                    ann_start_date = start_dt,
                                                    ann_expiration_date = exp_date,
                                                    ann_created_at = datetime_now clock2\<rparr>\<rparr>))))))"
  by (auto simp: create_announcement_def check_teacher_authenticated [OF assms] strip_Nil Let_def
      split: sum.splits)

subsection \<open>The invariants under each handler\<close>

lemma validated_record:
  assumes "ann_message a = strip message" and "strip message \<noteq> []"
    and "start_not_before (ann_start_date a) (ann_expiration_date a) = Inr False"
  shows "data_model_invariant a"
proof -
  from assms(1,2) have "ann_message a \<noteq> []" by simp
  moreover from assms(1) strip_has_nonspace [OF assms(2)]
  have "\<exists>c\<in>set (ann_message a). \<not> py_isspace c" by simp
  moreover from assms(1) have "strip (ann_message a) = ann_message a"
    by (simp add: strip_idem)
  moreover from assms(3)
  have "case ann_start_date a of
          None \<Rightarrow> True
        | Some s \<Rightarrow> datetime_lt s (ann_expiration_date a) = Inr True"
    by (auto simp: start_not_before_def split: option.splits intro: datetime_ge_False_lt)
  ultimately show ?thesis by (simp add: data_model_invariant_def)
qed

lemma create_announcement_stores_valid:
  assumes "create_announcement db inserted_id clock1 clock2 message expiration_date start_date
             teacher_username = (Inr r, db')"
  shows "\<exists>a. announcements_collection db' = announcements_collection db @ [a]
           \<and> ann_message a = strip message \<and> data_model_invariant a"
proof -
  from create_announcement_Inr [OF assms] obtain exp_date start_dt where
    ok: "strip message \<noteq> []" "start_not_before start_dt exp_date = Inr False"
    and db': "db' = db\<lparr>announcements_collection := insert_one (announcements_collection db)
         \<lparr>ann_id = inserted_id, ann_message = strip message, ann_start_date = start_dt,
           ann_expiration_date = exp_date, ann_created_at = datetime_now clock2\<rparr>\<rparr>"
    by blast
  let ?a = "\<lparr>ann_id = inserted_id, ann_message = strip message, ann_start_date = start_dt,
           ann_expiration_date = exp_date, ann_created_at = datetime_now clock2\<rparr>"
  from ok have "data_model_invariant ?a"
    by (intro validated_record [of _ message]) simp_all
  moreover from db' have "announcements_collection db' = announcements_collection db @ [?a]"
    by (simp add: insert_one_def)
  ultimately show ?thesis by auto
qed

lemma update_announcement_stores_valid:
  assumes "update_announcement db announcement_id message expiration_date start_date
             teacher_username = (Inr r, db')"
  shows "\<exists>pre old new post.
           announcements_collection db = pre @ old # post
         \<and> announcements_collection db' = pre @ new # post
         \<and> ann_message new = strip message \<and> data_model_invariant new"
proof -
  from update_announcement_Inr [OF assms] obtain obj_id old exp_date start_dt where
    found: "find_one (announcements_collection db) (Field_is ''_id'' (BObjectId obj_id)) = Some old"
    and ok: "strip message \<noteq> []" "start_not_before start_dt exp_date = Inr False"
    and db': "db' = db\<lparr>announcements_collection :=
               update_one (announcements_collection db) (Field_is ''_id'' (BObjectId obj_id))
                 [(''message'', BString (strip message)),
                  (''start_date'', (case start_dt of None \<Rightarrow> BNull | Some t \<Rightarrow> BDate t)),
                  (''expiration_date'', BDate exp_date)]\<rparr>"
    by blast
  let ?new = "old\<lparr>ann_message := strip message, ann_start_date := start_dt,
                   ann_expiration_date := exp_date\<rparr>"
  from find_one_update_one [OF found, of "strip message" start_dt exp_date] db'
  obtain pre post where
    "announcements_collection db = pre @ old # post"
    "announcements_collection db' = pre @ ?new # post"
    by auto
  moreover from ok have "data_model_invariant ?new"
    by (intro validated_record [of _ message]) simp_all
  moreover have "ann_message ?new = strip message" by simp
  ultimately show ?thesis by blast
qed

lemma create_announcement_keeps_invariants:
  assumes "\<forall>a\<in>set (announcements_collection db). data_model_invariant a"
  shows "\<forall>a\<in>set (announcements_collection
           (snd (create_announcement db inserted_id clock1 clock2 message expiration_date
                   start_date teacher_username))). data_model_invariant a"
proof (cases "create_announcement db inserted_id clock1 clock2 message expiration_date
                start_date teacher_username")
  case (Pair res db')
  show ?thesis
  proof (cases res)
    case (Inl e)
    with Pair have "db' = db" by (auto dest: create_announcement_Inl)
    with Pair assms show ?thesis by simp
  next
    case (Inr r)
    with Pair create_announcement_stores_valid [of db inserted_id clock1 clock2 message
        expiration_date start_date teacher_username r db']
    obtain a where "announcements_collection db' = announcements_collection db @ [a]"
      "data_model_invariant a" by auto
    with Pair assms show ?thesis by auto
  qed
qed

lemma update_announcement_keeps_invariants:
  assumes "\<forall>a\<in>set (announcements_collection db). data_model_invariant a"
  shows "\<forall>a\<in>set (announcements_collection
           (snd (update_announcement db announcement_id message expiration_date
                   start_date teacher_username))). data_model_invariant a"
proof (cases "update_announcement db announcement_id message expiration_date
                start_date teacher_username")
  case (Pair res db')
  show ?thesis
  proof (cases res)
    case (Inl e)
    with Pair have "db' = db" by (auto dest: update_announcement_Inl)
    with Pair assms show ?thesis by simp
  next
    case (Inr r)
    with Pair update_announcement_stores_valid [of db announcement_id message
        expiration_date start_date teacher_username r db']
    obtain pre old new post where
      "announcements_collection db = pre @ old # post"
      "announcements_collection db' = pre @ new # post"
      "data_model_invariant new" by auto
    with Pair assms show ?thesis by auto
  qed
qed

lemma delete_announcement_keeps_invariants:
  assumes "\<forall>a\<in>set (announcements_collection db). data_model_invariant a"
  shows "\<forall>a\<in>set (announcements_collection
           (snd (delete_announcement db announcement_id teacher_username))). data_model_invariant a"
  using assms set_delete_one [of "announcements_collection db"]
  by (auto simp: delete_announcement_def split: option.splits)

lemma reachable_invariants:
  "reachable st \<Longrightarrow> \<forall>a\<in>set (announcements_collection st). data_model_invariant a"
proof (induction rule: reachable.induct)
  case (initial teachers)
  show ?case by simp
next
  case (after_get_active db clock)
  then show ?case by (simp add: get_active_announcements_def)
next
  case (after_get_all db teacher_username)
  then show ?case by (simp add: get_all_announcements_def split: option.splits)
next
  case (after_create db inserted_id clock1 clock2 message expiration_date start_date teacher_username)
  then show ?case by (intro create_announcement_keeps_invariants)
next
  case (after_update db announcement_id message expiration_date start_date teacher_username)
  then show ?case by (intro update_announcement_keeps_invariants)
next
  case (after_delete db announcement_id teacher_username)
  then show ?case by (intro delete_announcement_keeps_invariants)
qed

section \<open>The claims\<close>

text \<open>
  C1. Whatever the store holds and whatever the clock reads, get-active returns
  exactly the announcements whose expiration date is after now and whose start
  date is absent or not after now, each once per stored copy, with now read once,
  and lists them by \<open>created_at\<close>, latest first. Dates are compared as the store
  compares them, as points on the UTC time line.
\<close>

theorem get_active_announcements_selects_active:
  "\<exists>selected.
     get_active_announcements db clock = (Inr (map to_response selected), db)
   \<and> mset selected =
       filter_mset
         (\<lambda>a. utc_micros (ann_expiration_date a) > utc_micros (datetime_now clock)
              \<and> (case ann_start_date a of
                    None \<Rightarrow> True
                  | Some s \<Rightarrow> utc_micros s \<le> utc_micros (datetime_now clock)))
         (mset (announcements_collection db))
   \<and> sorted_wrt (\<lambda>a b. utc_micros (ann_created_at a) \<ge> utc_micros (ann_created_at b)) selected"
proof -
  let ?now = "datetime_now clock"
  let ?sel = "sort_created_at_desc (collection_find (announcements_collection db) (active_query ?now))"
  have res: "get_active_announcements db clock = (Inr (map to_response ?sel), db)"
    by (simp add: get_active_announcements_def)
  have content: "mset ?sel =
       filter_mset
         (\<lambda>a. utc_micros (ann_expiration_date a) > utc_micros ?now
              \<and> (case ann_start_date a of None \<Rightarrow> True | Some s \<Rightarrow> utc_micros s \<le> utc_micros ?now))
         (mset (announcements_collection db))"
    by (simp add: sort_created_at_desc_def collection_find_def matches_active_query)
  have "sorted (map (\<lambda>d. - utc_micros (ann_created_at d)) ?sel)"
    unfolding sort_created_at_desc_def by (rule sorted_sort_key)
  then have order: "sorted_wrt (\<lambda>a b. utc_micros (ann_created_at a) \<ge> utc_micros (ann_created_at b)) ?sel"
    by (simp add: sorted_map)
  from res content order show ?thesis by blast
qed

theorem get_active_announcements_selects_active_witness:
  "(\<exists>selected.
      get_active_announcements school (naive 2026 11 3 12) = (Inr (map to_response selected), school)
    \<and> mset selected =
        filter_mset
          (\<lambda>a. utc_micros (ann_expiration_date a) > utc_micros (datetime_now (naive 2026 11 3 12))
               \<and> (case ann_start_date a of
                     None \<Rightarrow> True
                   | Some s \<Rightarrow> utc_micros s \<le> utc_micros (datetime_now (naive 2026 11 3 12))))
          (mset (announcements_collection school))
    \<and> sorted_wrt (\<lambda>a b. utc_micros (ann_created_at a) \<ge> utc_micros (ann_created_at b)) selected)
   \<and> get_active_announcements school (naive 2026 11 3 12) = (Inr [to_response running_ann], school)
   \<and> get_active_announcements school (naive 2027 7 1 12)
       = (Inr [to_response upcoming_ann, to_response running_ann], school)"
proof -
  have "get_active_announcements school (naive 2026 11 3 12) = (Inr [to_response running_ann], school)"
    by code_simp
  moreover have "get_active_announcements school (naive 2027 7 1 12)
       = (Inr [to_response upcoming_ann, to_response running_ann], school)"
    by code_simp
  ultimately show ?thesis
    using get_active_announcements_selects_active [of school "naive 2026 11 3 12"] by blast
qed

text \<open>
  C2. The scenario of the spec, create with message "Exam tomorrow", expiration
  date "2099-01-01T00:00:00Z" and no start date, for an authenticated caller. The
  handler turns the \<^verbatim>\<open>Z\<close> into \<^verbatim>\<open>+00:00\<close>, so the parsed date is aware; comparing
  it with the naive \<^verbatim>\<open>datetime.now()\<close> raises \<^verbatim>\<open>TypeError\<close>, whatever the store, the
  clock and the teacher are, and nothing is stored.
\<close>

theorem create_exam_tomorrow_raises_TypeError:
  assumes "authenticated db teacher_username"
  shows "create_announcement db inserted_id clock1 clock2 ''Exam tomorrow'' ''2099-01-01T00:00:00Z''
           None teacher_username = (Inl TypeError, db)"
proof -
  have parsed: "fromisoformat (replace ''2099-01-01T00:00:00Z'' CHR ''Z'' ''+00:00'')
      = Some \<lparr>year = 2099, month = 1, day = 1, hour = 0, minute = 0, second = 0,
               microsecond = 0, tzinfo = Some 0\<rparr>"
    by code_simp
  have trimmed: "strip ''Exam tomorrow'' \<noteq> []"
    by code_simp
  have start: "parse_start_date None = Inr None"
    by (simp add: parse_start_date_def truthy_def)
  show ?thesis
    by (rule create_announcement_aware_expiration [OF assms trimmed parsed _ start]) simp
qed

theorem create_exam_tomorrow_raises_TypeError_witness:
  "authenticated empty_school (Some ''mrodriguez'')
   \<and> create_announcement empty_school oid1 (naive 2026 11 3 12) (naive 2026 11 3 12)
       ''Exam tomorrow'' ''2099-01-01T00:00:00Z'' None (Some ''mrodriguez'')
     = (Inl TypeError, empty_school)"
proof -
  have known: "authenticated empty_school (Some ''mrodriguez'')"
    by (simp add: authenticated_def)
  from create_exam_tomorrow_raises_TypeError [OF known] known show ?thesis
    by blast
qed

text \<open>
  C3. For an authenticated caller and the id of a stored record, update with a
  valid message, an expiration date that parses, and a start date that is absent
  or before it succeeds whatever the expiration date is: update reads no clock.
  Where create refuses the same arguments because the expiration date is not
  after now, update still succeeds. Every other 400 of create is raised by update
  too, with the same detail.
\<close>

theorem update_skips_only_the_future_check:
  assumes "authenticated db teacher_username"
    and "ObjectId announcement_id = Some obj_id"
    and "find_one (announcements_collection db) (Field_is ''_id'' (BObjectId obj_id)) = Some old"
  shows "(strip message \<noteq> []
          \<and> fromisoformat (replace expiration_date CHR ''Z'' ''+00:00'') = Some exp_date
          \<and> parse_start_date start_date = Inr start_dt
          \<and> start_not_before start_dt exp_date = Inr False
          \<longrightarrow> fst (update_announcement db announcement_id message expiration_date start_date
                       teacher_username)
                = Inr (to_response (old\<lparr>ann_message := strip message, ann_start_date := start_dt,
                                          ann_expiration_date := exp_date\<rparr>))
              \<and> (datetime_le exp_date (datetime_now clock1) = Inr True
                  \<longrightarrow> fst (create_announcement db inserted_id clock1 clock2 message expiration_date
                               start_date teacher_username)
                        = Inl (HTTPException 400 ''Expiration date must be in the future'')))
       \<and> (\<forall>detail.
             fst (create_announcement db inserted_id clock1 clock2 message expiration_date start_date
                    teacher_username) = Inl (HTTPException 400 detail)
             \<and> detail \<noteq> ''Expiration date must be in the future''
             \<longrightarrow> fst (update_announcement db announcement_id message expiration_date start_date
                          teacher_username) = Inl (HTTPException 400 detail))"
proof -
  note update = update_announcement_exists [OF assms]
  note create = create_announcement_authenticated [OF assms(1)]
  have accepted: "fst (update_announcement db announcement_id message expiration_date start_date
                       teacher_username)
                = Inr (to_response (old\<lparr>ann_message := strip message, ann_start_date := start_dt,
                                          ann_expiration_date := exp_date\<rparr>))"
    if "strip message \<noteq> []"
      and "fromisoformat (replace expiration_date CHR ''Z'' ''+00:00'') = Some exp_date"
      and "parse_start_date start_date = Inr start_dt"
      and "start_not_before start_dt exp_date = Inr False"
    using that by (simp add: update parse_expiration_date_Some)
  have refused: "fst (create_announcement db inserted_id clock1 clock2 message expiration_date
                               start_date teacher_username)
                        = Inl (HTTPException 400 ''Expiration date must be in the future'')"
    if "strip message \<noteq> []"
      and "fromisoformat (replace expiration_date CHR ''Z'' ''+00:00'') = Some exp_date"
      and "parse_start_date start_date = Inr start_dt"
      and "datetime_le exp_date (datetime_now clock1) = Inr True"
    using that by (simp add: create parse_expiration_date_Some)
  have others: "fst (update_announcement db announcement_id message expiration_date start_date
                          teacher_username) = Inl (HTTPException 400 detail)"
    if "fst (create_announcement db inserted_id clock1 clock2 message expiration_date start_date
                    teacher_username) = Inl (HTTPException 400 detail)"
      and "detail \<noteq> ''Expiration date must be in the future''"
    for detail
    using that
    by (auto simp: update create split: if_splits sum.splits
        dest: datetime_le_Inl start_not_before_Inl)
  from accepted refused others show ?thesis by blast
qed

theorem update_skips_only_the_future_check_witness:
  "fst (update_announcement school ''65a000000000000000000001'' ''y'' ''2000-01-01T00:00:00Z'' None
          (Some ''mrodriguez''))
     = Inr (to_response (running_ann\<lparr>ann_message := ''y'', ann_start_date := None,
              ann_expiration_date := \<lparr>year = 2000, month = 1, day = 1, hour = 0, minute = 0,
                second = 0, microsecond = 0, tzinfo = Some 0\<rparr>\<rparr>))
   \<and> fst (update_announcement school ''65a000000000000000000001'' ''y'' ''2000-01-01T00:00:00'' None
          (Some ''mrodriguez''))
     = Inr (to_response (running_ann\<lparr>ann_message := ''y'', ann_start_date := None,
              ann_expiration_date := naive 2000 1 1 0\<rparr>))
   \<and> fst (create_announcement school oid1 (naive 2026 11 3 12) (naive 2026 11 3 12) ''y''
            ''2000-01-01T00:00:00'' None (Some ''mrodriguez''))
     = Inl (HTTPException 400 ''Expiration date must be in the future'')
   \<and> fst (create_announcement school oid1 (naive 2026 11 3 12) (naive 2026 11 3 12) ''  ''
            ''2000-01-01T00:00:00'' None (Some ''mrodriguez''))
     = Inl (HTTPException 400 ''Message cannot be empty'')
   \<and> fst (update_announcement school ''65a000000000000000000001'' ''  '' ''2000-01-01T00:00:00'' None
          (Some ''mrodriguez''))
     = Inl (HTTPException 400 ''Message cannot be empty'')"
proof -
  have known: "authenticated school (Some ''mrodriguez'')"
    by (simp add: authenticated_def)
  have id: "ObjectId ''65a000000000000000000001'' = Some oid1"
    by code_simp
  have found: "find_one (announcements_collection school) (Field_is ''_id'' (BObjectId oid1))
      = Some running_ann"
    by code_simp
  note at_school = update_skips_only_the_future_check [OF known id found]
  have stripped: "strip ''y'' = ''y''"
    by code_simp
  then have message: "strip ''y'' \<noteq> []"
    by simp
  have start: "parse_start_date None = Inr None"
    by (simp add: parse_start_date_def truthy_def)
  have aware: "fromisoformat (replace ''2000-01-01T00:00:00Z'' CHR ''Z'' ''+00:00'')
      = Some \<lparr>year = 2000, month = 1, day = 1, hour = 0, minute = 0, second = 0,
               microsecond = 0, tzinfo = Some 0\<rparr>"
    by code_simp
  have past: "fromisoformat (replace ''2000-01-01T00:00:00'' CHR ''Z'' ''+00:00'')
      = Some (naive 2000 1 1 0)"
    by code_simp
  have no_start: "start_not_before None exp_date = Inr False" for exp_date
    by (simp add: start_not_before_def)
  have before_now: "datetime_le (naive 2000 1 1 0) (datetime_now (naive 2026 11 3 12)) = Inr True"
    by code_simp
  have blank: "fst (create_announcement school oid1 (naive 2026 11 3 12) (naive 2026 11 3 12) ''  ''
            ''2000-01-01T00:00:00'' None (Some ''mrodriguez''))
     = Inl (HTTPException 400 ''Message cannot be empty'')"
    by code_simp
  have differs: "''Message cannot be empty'' \<noteq> ''Expiration date must be in the future''"
    by simp
  from at_school [of "''y''" "''2000-01-01T00:00:00Z''"
      "\<lparr>year = 2000, month = 1, day = 1, hour = 0, minute = 0, second = 0,
        microsecond = 0, tzinfo = Some 0\<rparr>" None None
      "naive 2026 11 3 12" oid1 "naive 2026 11 3 12"] message aware start no_start
  have "fst (update_announcement school ''65a000000000000000000001'' ''y''
        ''2000-01-01T00:00:00Z'' None (Some ''mrodriguez''))
     = Inr (to_response (running_ann\<lparr>ann_message := strip ''y'', ann_start_date := None,
              ann_expiration_date := \<lparr>year = 2000, month = 1, day = 1, hour = 0, minute = 0,
                second = 0, microsecond = 0, tzinfo = Some 0\<rparr>\<rparr>))"
    by blast
  then have zoned: "fst (update_announcement school ''65a000000000000000000001'' ''y''
        ''2000-01-01T00:00:00Z'' None (Some ''mrodriguez''))
     = Inr (to_response (running_ann\<lparr>ann_message := ''y'', ann_start_date := None,
              ann_expiration_date := \<lparr>year = 2000, month = 1, day = 1, hour = 0, minute = 0,
                second = 0, microsecond = 0, tzinfo = Some 0\<rparr>\<rparr>))"
    by (simp only: stripped)
  from at_school [of "''y''" "''2000-01-01T00:00:00''" "naive 2000 1 1 0" None None
      "naive 2026 11 3 12" oid1 "naive 2026 11 3 12"] message past start no_start before_now
  have "fst (update_announcement school ''65a000000000000000000001'' ''y''
        ''2000-01-01T00:00:00'' None (Some ''mrodriguez''))
     = Inr (to_response (running_ann\<lparr>ann_message := strip ''y'', ann_start_date := None,
              ann_expiration_date := naive 2000 1 1 0\<rparr>))
   \<and> fst (create_announcement school oid1 (naive 2026 11 3 12) (naive 2026 11 3 12) ''y''
            ''2000-01-01T00:00:00'' None (Some ''mrodriguez''))
     = Inl (HTTPException 400 ''Expiration date must be in the future'')"
    by blast
  then have plain: "fst (update_announcement school ''65a000000000000000000001'' ''y''
        ''2000-01-01T00:00:00'' None (Some ''mrodriguez''))
     = Inr (to_response (running_ann\<lparr>ann_message := ''y'', ann_start_date := None,
              ann_expiration_date := naive 2000 1 1 0\<rparr>))
   \<and> fst (create_announcement school oid1 (naive 2026 11 3 12) (naive 2026 11 3 12) ''y''
            ''2000-01-01T00:00:00'' None (Some ''mrodriguez''))
     = Inl (HTTPException 400 ''Expiration date must be in the future'')"
    by (simp only: stripped)
  from at_school [of "''  ''" "''2000-01-01T00:00:00''" "naive 2000 1 1 0" None None
      "naive 2026 11 3 12" oid1 "naive 2026 11 3 12"] blank differs
  have empty: "fst (update_announcement school ''65a000000000000000000001'' ''  ''
        ''2000-01-01T00:00:00'' None (Some ''mrodriguez''))
     = Inl (HTTPException 400 ''Message cannot be empty'')"
    by blast
  from zoned plain blank empty show ?thesis by blast
qed

text \<open>
  C4. The record a successful create appends, and the record a successful update
  leaves in place of the old one, hold the trimmed message, which is not empty
  and not all white space, and a start date, when present, that compares strictly
  before the expiration date. Hence every announcement of every store the
  handlers can reach from a store without announcements satisfies the invariants.
\<close>

theorem persisted_records_keep_invariants:
  "(create_announcement db inserted_id clock1 clock2 message expiration_date start_date
      teacher_username = (Inr r, db')
    \<longrightarrow> (\<exists>a. announcements_collection db' = announcements_collection db @ [a]
            \<and> ann_message a = strip message \<and> data_model_invariant a))
   \<and> (update_announcement db announcement_id message expiration_date start_date
        teacher_username = (Inr r, db')
      \<longrightarrow> (\<exists>pre old new post.
              announcements_collection db = pre @ old # post
            \<and> announcements_collection db' = pre @ new # post
            \<and> ann_message new = strip message \<and> data_model_invariant new))
   \<and> (reachable st \<longrightarrow> (\<forall>a\<in>set (announcements_collection st). data_model_invariant a))"
proof (intro conjI impI)
  assume "create_announcement db inserted_id clock1 clock2 message expiration_date start_date
      teacher_username = (Inr r, db')"
  then show "\<exists>a. announcements_collection db' = announcements_collection db @ [a]
            \<and> ann_message a = strip message \<and> data_model_invariant a"
    by (rule create_announcement_stores_valid)
next
  assume "update_announcement db announcement_id message expiration_date start_date
        teacher_username = (Inr r, db')"
  then show "\<exists>pre old new post.
              announcements_collection db = pre @ old # post
            \<and> announcements_collection db' = pre @ new # post
            \<and> ann_message new = strip message \<and> data_model_invariant new"
    by (rule update_announcement_stores_valid)
next
  assume "reachable st"
  then show "\<forall>a\<in>set (announcements_collection st). data_model_invariant a"
    by (rule reachable_invariants)
qed

theorem persisted_records_keep_invariants_witness:
  "create_announcement empty_school oid1 (naive 2026 11 3 12) (naive 2026 11 3 12)
       ''  Exam tomorrow '' ''2099-01-01T00:00:00'' (Some ''2098-06-01T00:00:00'') (Some ''mrodriguez'')
     = (Inr (to_response
               \<lparr>ann_id = oid1, ann_message = ''Exam tomorrow'',
                ann_start_date = Some (naive 2098 6 1 0),
                ann_expiration_date = naive 2099 1 1 0, ann_created_at = naive 2026 11 3 12\<rparr>),
        \<lparr>announcements_collection =
           [\<lparr>ann_id = oid1, ann_message = ''Exam tomorrow'',
             ann_start_date = Some (naive 2098 6 1 0),
             ann_expiration_date = naive 2099 1 1 0, ann_created_at = naive 2026 11 3 12\<rparr>],
         teachers_collection = [''mrodriguez'']\<rparr>)
   \<and> reachable
        \<lparr>announcements_collection =
           [\<lparr>ann_id = oid1, ann_message = ''Exam tomorrow'',
             ann_start_date = Some (naive 2098 6 1 0),
             ann_expiration_date = naive 2099 1 1 0, ann_created_at = naive 2026 11 3 12\<rparr>],
         teachers_collection = [''mrodriguez'']\<rparr>
   \<and> data_model_invariant
        \<lparr>ann_id = oid1, ann_message = ''Exam tomorrow'',
         ann_start_date = Some (naive 2098 6 1 0),
         ann_expiration_date = naive 2099 1 1 0, ann_created_at = naive 2026 11 3 12\<rparr>"
proof -
  let ?a = "\<lparr>ann_id = oid1, ann_message = ''Exam tomorrow'',
             ann_start_date = Some (naive 2098 6 1 0),
             ann_expiration_date = naive 2099 1 1 0, ann_created_at = naive 2026 11 3 12\<rparr>"
  let ?st = "\<lparr>announcements_collection = [?a], teachers_collection = [''mrodriguez'']\<rparr>"
  have run: "create_announcement empty_school oid1 (naive 2026 11 3 12) (naive 2026 11 3 12)
       ''  Exam tomorrow '' ''2099-01-01T00:00:00'' (Some ''2098-06-01T00:00:00'') (Some ''mrodriguez'')
     = (Inr (to_response ?a), ?st)"
    by code_simp
  have "reachable (snd (create_announcement empty_school oid1 (naive 2026 11 3 12)
       (naive 2026 11 3 12) ''  Exam tomorrow '' ''2099-01-01T00:00:00''
       (Some ''2098-06-01T00:00:00'') (Some ''mrodriguez'')))"
    by (rule after_create [OF initial])
  then have reach: "reachable ?st"
    by (simp only: run snd_conv)
  with persisted_records_keep_invariants [where st = ?st]
  have "\<forall>a\<in>set (announcements_collection ?st). data_model_invariant a"
    by blast
  then have "data_model_invariant ?a"
    by simp
  with run reach show ?thesis by blast
qed

text \<open>
  C5. An expiration date that carries a UTC offset (a trailing \<^verbatim>\<open>Z\<close> included) is
  never compared with the clock: for an authenticated caller, a valid message
  and a start date that passes parsing, create raises \<^verbatim>\<open>TypeError\<close> at the future
  check instead of the 400 the claim asks for, also when the date lies in the
  past. Nothing is stored.
\<close>

theorem create_aware_expiration_raises_TypeError:
  assumes "authenticated db teacher_username"
    and "strip message \<noteq> []"
    and "fromisoformat (replace expiration_date CHR ''Z'' ''+00:00'') = Some exp_date"
    and "tzinfo exp_date \<noteq> None"
    and "parse_start_date start_date = Inr start_dt"
  shows "create_announcement db inserted_id clock1 clock2 message expiration_date start_date
           teacher_username = (Inl TypeError, db)
       \<and> http_status (fst (create_announcement db inserted_id clock1 clock2 message expiration_date
                              start_date teacher_username)) \<noteq> 400"
  using create_announcement_aware_expiration [OF assms]
  by (simp add: http_status_def)

theorem create_aware_expiration_raises_TypeError_witness:
  "create_announcement empty_school oid1 (naive 2026 11 3 12) (naive 2026 11 3 12)
       ''x'' ''2000-01-01T00:00:00Z'' None (Some ''mrodriguez'')
     = (Inl TypeError, empty_school)
   \<and> http_status (fst (create_announcement empty_school oid1 (naive 2026 11 3 12) (naive 2026 11 3 12)
       ''x'' ''2000-01-01T00:00:00Z'' None (Some ''mrodriguez''))) \<noteq> 400"
proof -
  have known: "authenticated empty_school (Some ''mrodriguez'')"
    by (simp add: authenticated_def)
  have trimmed: "strip ''x'' \<noteq> []"
    by code_simp
  have parsed: "fromisoformat (replace ''2000-01-01T00:00:00Z'' CHR ''Z'' ''+00:00'')
      = Some \<lparr>year = 2000, month = 1, day = 1, hour = 0, minute = 0, second = 0,
               microsecond = 0, tzinfo = Some 0\<rparr>"
    by code_simp
  have start: "parse_start_date None = Inr None"
    by (simp add: parse_start_date_def truthy_def)
  show ?thesis
    by (rule create_aware_expiration_raises_TypeError [OF known trimmed parsed _ start]) simp
qed

text \<open>
  C6, as stated: a start date that parses and is not before the expiration date
  makes every authenticated create or update fail with a 400. Update looks the
  record up first: for a well-formed id that names no record it raises 404
  "Announcement not found" and never compares the dates.
\<close>

theorem update_unknown_id_not_found_before_dates:
  "fromisoformat (replace ''2027-01-01T00:00:00'' CHR ''Z'' ''+00:00'') = Some (naive 2027 1 1 0)
   \<and> fromisoformat (replace ''2026-06-01T00:00:00'' CHR ''Z'' ''+00:00'') = Some (naive 2026 6 1 0)
   \<and> datetime_lt (naive 2027 1 1 0) (naive 2026 6 1 0) = Inr False
   \<and> update_announcement empty_school ''65a000000000000000000001'' ''Moved''
        ''2026-06-01T00:00:00'' (Some ''2027-01-01T00:00:00'') (Some ''mrodriguez'')
      = (Inl (HTTPException 404 ''Announcement not found''), empty_school)"
  by code_simp

text \<open>
  C6, amended. For an authenticated caller, a start date that is supplied (not
  empty), parses, and compares not before the parsed expiration date
  (\<^verbatim>\<open>start_dt >= exp_date\<close> is true, equality included) makes create fail with
  status 400 when the expiration date carries no UTC offset, and makes update
  fail with status 400 when its id names a stored record; the store is left as
  it was.
\<close>

theorem late_start_date_rejected:
  assumes "authenticated db teacher_username"
    and "s \<noteq> []"
    and "fromisoformat (replace s CHR ''Z'' ''+00:00'') = Some start_dt"
    and "fromisoformat (replace expiration_date CHR ''Z'' ''+00:00'') = Some exp_date"
    and "datetime_ge start_dt exp_date = Inr True"
  shows "(tzinfo exp_date = None
          \<longrightarrow> http_status (fst (create_announcement db inserted_id clock1 clock2 message
                                    expiration_date (Some s) teacher_username)) = 400
              \<and> snd (create_announcement db inserted_id clock1 clock2 message expiration_date
                       (Some s) teacher_username) = db)
       \<and> (ObjectId announcement_id = Some obj_id
            \<and> find_one (announcements_collection db) (Field_is ''_id'' (BObjectId obj_id)) = Some old
          \<longrightarrow> http_status (fst (update_announcement db announcement_id message expiration_date
                                    (Some s) teacher_username)) = 400
              \<and> snd (update_announcement db announcement_id message expiration_date
                       (Some s) teacher_username) = db)"
proof -
  note start = parse_start_date_Some [OF assms(2,3)]
  note expiration = parse_expiration_date_Some [OF assms(4)]
  from assms(5) have late: "start_not_before (Some start_dt) exp_date = Inr True"
    by (simp add: start_not_before_def)
  have create: "http_status (fst (create_announcement db inserted_id clock1 clock2 message
                                    expiration_date (Some s) teacher_username)) = 400
              \<and> snd (create_announcement db inserted_id clock1 clock2 message expiration_date
                       (Some s) teacher_username) = db"
    if "tzinfo exp_date = None"
  proof -
    from datetime_le_naive [OF that tzinfo_datetime_now]
    obtain c where "datetime_le exp_date (datetime_now clock1) = Inr c" by blast
    then show ?thesis
      by (simp add: create_announcement_authenticated [OF assms(1)] start expiration late
          http_status_def)
  qed
  have update: "http_status (fst (update_announcement db announcement_id message expiration_date
                                    (Some s) teacher_username)) = 400
              \<and> snd (update_announcement db announcement_id message expiration_date
                       (Some s) teacher_username) = db"
    if "ObjectId announcement_id = Some obj_id"
      and "find_one (announcements_collection db) (Field_is ''_id'' (BObjectId obj_id)) = Some old"
    by (simp add: update_announcement_exists [OF assms(1) that] start expiration late
        http_status_def)
  from create update show ?thesis by blast
qed

theorem late_start_date_rejected_witness:
  "datetime_ge (naive 2099 1 1 0) (naive 2099 1 1 0) = Inr True
   \<and> http_status (fst (create_announcement school oid1 (naive 2026 11 3 12) (naive 2026 11 3 12)
       ''Exam tomorrow'' ''2099-01-01T00:00:00'' (Some ''2099-01-01T00:00:00'') (Some ''mrodriguez''))) = 400
   \<and> snd (create_announcement school oid1 (naive 2026 11 3 12) (naive 2026 11 3 12)
       ''Exam tomorrow'' ''2099-01-01T00:00:00'' (Some ''2099-01-01T00:00:00'') (Some ''mrodriguez'')) = school
   \<and> http_status (fst (update_announcement school ''65a000000000000000000001''
       ''Exam tomorrow'' ''2099-01-01T00:00:00'' (Some ''2099-01-01T00:00:00'') (Some ''mrodriguez''))) = 400
   \<and> snd (update_announcement school ''65a000000000000000000001''
       ''Exam tomorrow'' ''2099-01-01T00:00:00'' (Some ''2099-01-01T00:00:00'') (Some ''mrodriguez'')) = school"
proof -
  have known: "authenticated school (Some ''mrodriguez'')"
    by (simp add: authenticated_def)
  have given: "''2099-01-01T00:00:00'' \<noteq> []"
    by simp
  have parsed: "fromisoformat (replace ''2099-01-01T00:00:00'' CHR ''Z'' ''+00:00'')
      = Some (naive 2099 1 1 0)"
    by code_simp
  have equal: "datetime_ge (naive 2099 1 1 0) (naive 2099 1 1 0) = Inr True"
    by code_simp
  have no_offset: "tzinfo (naive 2099 1 1 0) = None"
    by simp
  have id: "ObjectId ''65a000000000000000000001'' = Some oid1"
    by code_simp
  have found: "find_one (announcements_collection school) (Field_is ''_id'' (BObjectId oid1))
      = Some running_ann"
    by code_simp
  from late_start_date_rejected [OF known given parsed parsed equal,
      of oid1 "naive 2026 11 3 12" "naive 2026 11 3 12" "''Exam tomorrow''"
         "''65a000000000000000000001''" oid1 running_ann] equal no_offset id found
  show ?thesis by blast
qed

text \<open>
  C7. A successful update changes one document, the first with the given id: its
  \<open>message\<close>, \<open>start_date\<close> and \<open>expiration_date\<close> are replaced by the trimmed
  message and the parsed dates, its \<open>_id\<close> and \<open>created_at\<close> stay, every other
  document and the teachers stay, and the response is that document as read again
  from the store after the write.
\<close>

theorem update_replaces_three_fields_only:
  assumes "update_announcement db announcement_id message expiration_date start_date
             teacher_username = (Inr r, db')"
  shows "\<exists>obj_id pre old post exp_date start_dt new.
       ObjectId announcement_id = Some obj_id
     \<and> parse_expiration_date expiration_date = Inr exp_date
     \<and> parse_start_date start_date = Inr start_dt
     \<and> announcements_collection db = pre @ old # post
     \<and> (\<forall>d\<in>set pre. ann_id d \<noteq> obj_id) \<and> ann_id old = obj_id
     \<and> new = old\<lparr>ann_message := strip message, ann_start_date := start_dt,
                  ann_expiration_date := exp_date\<rparr>
     \<and> announcements_collection db' = pre @ new # post
     \<and> teachers_collection db' = teachers_collection db
     \<and> ann_id new = ann_id old \<and> ann_created_at new = ann_created_at old
     \<and> find_one (announcements_collection db') (Field_is ''_id'' (BObjectId obj_id)) = Some new
     \<and> r = to_response new"
proof -
  from update_announcement_Inr [OF assms] obtain obj_id old exp_date start_dt reread where
    id: "ObjectId announcement_id = Some obj_id"
    and found: "find_one (announcements_collection db) (Field_is ''_id'' (BObjectId obj_id)) = Some old"
    and dates: "parse_expiration_date expiration_date = Inr exp_date"
      "parse_start_date start_date = Inr start_dt"
    and db': "db' = db\<lparr>announcements_collection :=
               update_one (announcements_collection db) (Field_is ''_id'' (BObjectId obj_id))
                 [(''message'', BString (strip message)),
                  (''start_date'', (case start_dt of None \<Rightarrow> BNull | Some t \<Rightarrow> BDate t)),
                  (''expiration_date'', BDate exp_date)]\<rparr>"
    and reread: "find_one (announcements_collection db') (Field_is ''_id'' (BObjectId obj_id))
        = Some reread"
    and r: "r = to_response reread"
    by blast
  let ?new = "old\<lparr>ann_message := strip message, ann_start_date := start_dt,
                   ann_expiration_date := exp_date\<rparr>"
  from find_one_update_one [OF found, of "strip message" start_dt exp_date] db'
  obtain pre post where
    split: "announcements_collection db = pre @ old # post"
      "\<forall>d\<in>set pre. ann_id d \<noteq> obj_id" "ann_id old = obj_id"
    and written: "announcements_collection db' = pre @ ?new # post"
    and again: "find_one (announcements_collection db') (Field_is ''_id'' (BObjectId obj_id))
        = Some ?new"
    by auto
  from reread again have "reread = ?new" by simp
  with r have response: "r = to_response ?new" by simp
  from db' have teachers: "teachers_collection db' = teachers_collection db" by simp
  have kept: "ann_id ?new = ann_id old \<and> ann_created_at ?new = ann_created_at old" by simp
  from id dates split written teachers kept again response show ?thesis by blast
qed

theorem update_replaces_three_fields_only_witness:
  "update_announcement school ''65a000000000000000000002'' '' Bake sale moved '' ''2026-03-01T00:00:00''
       (Some ''2026-02-15T00:00:00'') (Some ''mrodriguez'')
     = (Inr (to_response
               (expired_ann\<lparr>ann_message := ''Bake sale moved'',
                    ann_start_date := Some (naive 2026 2 15 0),
                    ann_expiration_date := naive 2026 3 1 0\<rparr>)),
        \<lparr>announcements_collection =
           [running_ann,
            expired_ann\<lparr>ann_message := ''Bake sale moved'',
                    ann_start_date := Some (naive 2026 2 15 0),
                    ann_expiration_date := naive 2026 3 1 0\<rparr>,
            upcoming_ann],
         teachers_collection = [''mrodriguez'']\<rparr>)
   \<and> (\<exists>obj_id pre old post exp_date start_dt new.
       ObjectId ''65a000000000000000000002'' = Some obj_id
     \<and> parse_expiration_date ''2026-03-01T00:00:00'' = Inr exp_date
     \<and> parse_start_date (Some ''2026-02-15T00:00:00'') = Inr start_dt
     \<and> announcements_collection school = pre @ old # post
     \<and> (\<forall>d\<in>set pre. ann_id d \<noteq> obj_id) \<and> ann_id old = obj_id
     \<and> new = old\<lparr>ann_message := strip '' Bake sale moved '', ann_start_date := start_dt,
                  ann_expiration_date := exp_date\<rparr>
     \<and> announcements_collection
          \<lparr>announcements_collection =
             [running_ann,
              expired_ann\<lparr>ann_message := ''Bake sale moved'',
                      ann_start_date := Some (naive 2026 2 15 0),
                      ann_expiration_date := naive 2026 3 1 0\<rparr>,
              upcoming_ann],
           teachers_collection = [''mrodriguez'']\<rparr> = pre @ new # post
     \<and> teachers_collection
          \<lparr>announcements_collection =
             [running_ann,
              expired_ann\<lparr>ann_message := ''Bake sale moved'',
                      ann_start_date := Some (naive 2026 2 15 0),
                      ann_expiration_date := naive 2026 3 1 0\<rparr>,
              upcoming_ann],
           teachers_collection = [''mrodriguez'']\<rparr> = teachers_collection school
     \<and> ann_id new = ann_id old \<and> ann_created_at new = ann_created_at old
     \<and> find_one (announcements_collection
          \<lparr>announcements_collection =
             [running_ann,
              expired_ann\<lparr>ann_message := ''Bake sale moved'',
                      ann_start_date := Some (naive 2026 2 15 0),
                      ann_expiration_date := naive 2026 3 1 0\<rparr>,
              upcoming_ann],
           teachers_collection = [''mrodriguez'']\<rparr>) (Field_is ''_id'' (BObjectId obj_id)) = Some new
     \<and> to_response
               (expired_ann\<lparr>ann_message := ''Bake sale moved'',
                    ann_start_date := Some (naive 2026 2 15 0),
                    ann_expiration_date := naive 2026 3 1 0\<rparr>) = to_response new)"
proof -
  have run: "update_announcement school ''65a000000000000000000002'' '' Bake sale moved ''
       ''2026-03-01T00:00:00'' (Some ''2026-02-15T00:00:00'') (Some ''mrodriguez'')
     = (Inr (to_response
               (expired_ann\<lparr>ann_message := ''Bake sale moved'',
                    ann_start_date := Some (naive 2026 2 15 0),
                    ann_expiration_date := naive 2026 3 1 0\<rparr>)),
        \<lparr>announcements_collection =
           [running_ann,
            expired_ann\<lparr>ann_message := ''Bake sale moved'',
                    ann_start_date := Some (naive 2026 2 15 0),
                    ann_expiration_date := naive 2026 3 1 0\<rparr>,
            upcoming_ann],
         teachers_collection = [''mrodriguez'']\<rparr>)"
    by code_simp
  from run update_replaces_three_fields_only [OF run] show ?thesis
    by (rule conjI)
qed

text \<open>
  C8, as stated: the status for a missing credential differs from the status for
  an unknown one. It does not: get-all answers both with 401.
\<close>

theorem missing_and_unknown_credential_same_status:
  "http_status (fst (get_all_announcements school None)) = 401
   \<and> http_status (fst (get_all_announcements school (Some ''nobody''))) = 401
   \<and> \<not> (http_status (fst (get_all_announcements school None))
           \<noteq> http_status (fst (get_all_announcements school (Some ''nobody''))))"
  by (simp add: get_all_announcements_def check_teacher_def truthy_def find_teacher_def
      http_status_def)

text \<open>
  C8, amended. In every handler that authenticates, a missing (or empty)
  credential and an unknown credential both raise status 401; what tells them
  apart is the detail: "Authentication required for this action" for the first,
  "Invalid teacher credentials" for the second.
\<close>

theorem authentication_errors_share_status_401:
  assumes "absent = None \<or> absent = Some []"
    and "u \<noteq> []" and "u \<notin> set (teachers_collection db)"
  shows "fst (get_all_announcements db absent)
           = Inl (HTTPException 401 ''Authentication required for this action'')
     \<and> fst (get_all_announcements db (Some u)) = Inl (HTTPException 401 ''Invalid teacher credentials'')
     \<and> fst (create_announcement db inserted_id clock1 clock2 message expiration_date start_date absent)
           = Inl (HTTPException 401 ''Authentication required for this action'')
     \<and> fst (create_announcement db inserted_id clock1 clock2 message expiration_date start_date (Some u))
           = Inl (HTTPException 401 ''Invalid teacher credentials'')
     \<and> fst (update_announcement db announcement_id message expiration_date start_date absent)
           = Inl (HTTPException 401 ''Authentication required for this action'')
     \<and> fst (update_announcement db announcement_id message expiration_date start_date (Some u))
           = Inl (HTTPException 401 ''Invalid teacher credentials'')
     \<and> fst (delete_announcement db announcement_id absent)
           = Inl (HTTPException 401 ''Authentication required for this action'')
     \<and> fst (delete_announcement db announcement_id (Some u))
           = Inl (HTTPException 401 ''Invalid teacher credentials'')"
proof -
  from assms(1) have "\<not> truthy absent" by (auto simp: truthy_def)
  then have a: "check_teacher db absent
      = Some (HTTPException 401 ''Authentication required for this action'')"
    by (rule check_teacher_absent)
  from assms(2,3) have b: "check_teacher db (Some u) = Some (HTTPException 401 ''Invalid teacher credentials'')"
    by (simp add: check_teacher_unknown truthy_def)
  show ?thesis
    by (simp add: get_all_announcements_refused [OF a] get_all_announcements_refused [OF b]
        create_announcement_refused [OF a] create_announcement_refused [OF b]
        update_announcement_refused [OF a] update_announcement_refused [OF b]
        delete_announcement_refused [OF a] delete_announcement_refused [OF b])
qed

theorem authentication_errors_share_status_401_witness:
  "fst (get_all_announcements school None)
           = Inl (HTTPException 401 ''Authentication required for this action'')
     \<and> fst (get_all_announcements school (Some ''nobody''))
           = Inl (HTTPException 401 ''Invalid teacher credentials'')
     \<and> fst (create_announcement school oid1 (naive 2026 11 3 12) (naive 2026 11 3 12) ''Hello''
              ''2099-01-01T00:00:00'' None None)
           = Inl (HTTPException 401 ''Authentication required for this action'')
     \<and> fst (create_announcement school oid1 (naive 2026 11 3 12) (naive 2026 11 3 12) ''Hello''
              ''2099-01-01T00:00:00'' None (Some ''nobody''))
           = Inl (HTTPException 401 ''Invalid teacher credentials'')
     \<and> fst (update_announcement school ''65a000000000000000000001'' ''Hello'' ''2099-01-01T00:00:00'' None None)
           = Inl (HTTPException 401 ''Authentication required for this action'')
     \<and> fst (update_announcement school ''65a000000000000000000001'' ''Hello'' ''2099-01-01T00:00:00'' None
              (Some ''nobody''))
           = Inl (HTTPException 401 ''Invalid teacher credentials'')
     \<and> fst (delete_announcement school ''65a000000000000000000001'' None)
           = Inl (HTTPException 401 ''Authentication required for this action'')
     \<and> fst (delete_announcement school ''65a000000000000000000001'' (Some ''nobody''))
           = Inl (HTTPException 401 ''Invalid teacher credentials'')"
  using authentication_errors_share_status_401 [of None "''nobody''" school oid1 "naive 2026 11 3 12"
      "naive 2026 11 3 12" "''Hello''" "''2099-01-01T00:00:00''" None "''65a000000000000000000001''"]
  by simp

text \<open>
  C9, as stated: a start date that is supplied and cannot be parsed, the empty
  string included, makes create fail with a 400. It does not for the empty
  string: \<^verbatim>\<open>if start_date:\<close> takes it for no start date, nothing is parsed, and the
  announcement is stored without one.
\<close>

theorem create_accepts_empty_start_date:
  "fromisoformat (replace [] CHR ''Z'' ''+00:00'') = None
   \<and> http_status (fst (create_announcement empty_school oid1 (naive 2026 11 3 12)
         (naive 2026 11 3 12) ''Exam tomorrow'' ''2099-01-01T00:00:00'' (Some [])
         (Some ''mrodriguez''))) = 200
   \<and> create_announcement empty_school oid1 (naive 2026 11 3 12) (naive 2026 11 3 12)
       ''Exam tomorrow'' ''2099-01-01T00:00:00'' (Some []) (Some ''mrodriguez'')
     = (Inr \<lparr>resp_id = ''65a000000000000000000001'', resp_message = ''Exam tomorrow'',
             resp_start_date = None, resp_expiration_date = ''2099-01-01T00:00:00'',
             resp_created_at = ''2026-11-03T12:00:00''\<rparr>,
        \<lparr>announcements_collection =
           [\<lparr>ann_id = oid1, ann_message = ''Exam tomorrow'', ann_start_date = None,
             ann_expiration_date = naive 2099 1 1 0, ann_created_at = naive 2026 11 3 12\<rparr>],
         teachers_collection = [''mrodriguez'']\<rparr>)"
  by code_simp

text \<open>
  C9, amended. For an authenticated caller, a start date that is supplied, is not
  the empty string and cannot be parsed makes create fail with status 400,
  whatever the other arguments are, and makes update fail with status 400 when
  its id names a stored record; the store is left as it was.
\<close>

theorem unparsable_start_date_rejected:
  assumes "authenticated db teacher_username"
    and "s \<noteq> []"
    and "fromisoformat (replace s CHR ''Z'' ''+00:00'') = None"
  shows "http_status (fst (create_announcement db inserted_id clock1 clock2 message expiration_date
                             (Some s) teacher_username)) = 400
       \<and> snd (create_announcement db inserted_id clock1 clock2 message expiration_date
                (Some s) teacher_username) = db
       \<and> (ObjectId announcement_id = Some obj_id
            \<and> find_one (announcements_collection db) (Field_is ''_id'' (BObjectId obj_id)) = Some old
          \<longrightarrow> http_status (fst (update_announcement db announcement_id message expiration_date
                                    (Some s) teacher_username)) = 400
              \<and> snd (update_announcement db announcement_id message expiration_date
                       (Some s) teacher_username) = db)"
proof -
  note start = parse_start_date_None [OF assms(2,3)]
  have create: "http_status (fst (create_announcement db inserted_id clock1 clock2 message
                   expiration_date (Some s) teacher_username)) = 400
       \<and> snd (create_announcement db inserted_id clock1 clock2 message expiration_date
                (Some s) teacher_username) = db"
    using parse_expiration_date_cases [of expiration_date]
    by (auto simp: create_announcement_authenticated [OF assms(1)] start http_status_def)
  have update: "http_status (fst (update_announcement db announcement_id message expiration_date
                                    (Some s) teacher_username)) = 400
              \<and> snd (update_announcement db announcement_id message expiration_date
                       (Some s) teacher_username) = db"
    if "ObjectId announcement_id = Some obj_id"
      and "find_one (announcements_collection db) (Field_is ''_id'' (BObjectId obj_id)) = Some old"
    using parse_expiration_date_cases [of expiration_date]
    by (auto simp: update_announcement_exists [OF assms(1) that] start http_status_def)
  from create update show ?thesis by blast
qed

theorem unparsable_start_date_rejected_witness:
  "http_status (fst (create_announcement school oid1 (naive 2026 11 3 12) (naive 2026 11 3 12)
       ''Exam tomorrow'' ''2099-01-01T00:00:00'' (Some ''next week'') (Some ''mrodriguez''))) = 400
   \<and> snd (create_announcement school oid1 (naive 2026 11 3 12) (naive 2026 11 3 12)
       ''Exam tomorrow'' ''2099-01-01T00:00:00'' (Some ''next week'') (Some ''mrodriguez'')) = school
   \<and> http_status (fst (update_announcement school ''65a000000000000000000001''
       ''Exam tomorrow'' ''2099-01-01T00:00:00'' (Some ''next week'') (Some ''mrodriguez''))) = 400
   \<and> snd (update_announcement school ''65a000000000000000000001''
       ''Exam tomorrow'' ''2099-01-01T00:00:00'' (Some ''next week'') (Some ''mrodriguez'')) = school"
proof -
  have known: "authenticated school (Some ''mrodriguez'')"
    by (simp add: authenticated_def)
  have given: "''next week'' \<noteq> []"
    by simp
  have unparsable: "fromisoformat (replace ''next week'' CHR ''Z'' ''+00:00'') = None"
    by code_simp
  have id: "ObjectId ''65a000000000000000000001'' = Some oid1"
    by code_simp
  have found: "find_one (announcements_collection school) (Field_is ''_id'' (BObjectId oid1))
      = Some running_ann"
    by code_simp
  from unparsable_start_date_rejected [OF known given unparsable,
      of oid1 "naive 2026 11 3 12" "naive 2026 11 3 12" "''Exam tomorrow''" "''2099-01-01T00:00:00''"
         "''65a000000000000000000001''" oid1 running_ann] id found
  show ?thesis by blast
qed

text \<open>
  C10. When the credential is absent, empty or not a known teacher, each of
  get-all, create, update and delete raises the 401 of the authentication block,
  whatever the other arguments are, and leaves the store as it was: nothing is
  validated, looked up or written before.
\<close>

theorem failed_authentication_comes_first:
  assumes "\<not> authenticated db teacher_username"
  shows "\<exists>detail.
       get_all_announcements db teacher_username = (Inl (HTTPException 401 detail), db)
     \<and> create_announcement db inserted_id clock1 clock2 message expiration_date start_date
         teacher_username = (Inl (HTTPException 401 detail), db)
     \<and> update_announcement db announcement_id message' expiration_date' start_date'
         teacher_username = (Inl (HTTPException 401 detail), db)
     \<and> delete_announcement db announcement_id' teacher_username
         = (Inl (HTTPException 401 detail), db)"
proof -
  obtain detail where refused: "check_teacher db teacher_username = Some (HTTPException 401 detail)"
    using check_teacher_Some [OF assms] by blast
  show ?thesis
    using get_all_announcements_refused [OF refused] create_announcement_refused [OF refused]
      update_announcement_refused [OF refused] delete_announcement_refused [OF refused]
    by blast
qed

theorem failed_authentication_comes_first_witness:
  "\<not> authenticated school (Some ''nobody'')
   \<and> (\<exists>detail.
       get_all_announcements school (Some ''nobody'') = (Inl (HTTPException 401 detail), school)
     \<and> create_announcement school oid1 (naive 2026 11 3 12) (naive 2026 11 3 12) [] ''tomorrow''
         (Some ''yesterday'') (Some ''nobody'') = (Inl (HTTPException 401 detail), school)
     \<and> update_announcement school ''65a000000000000000000001'' ''Moved'' ''2099-01-01T00:00:00'' None
         (Some ''nobody'') = (Inl (HTTPException 401 detail), school)
     \<and> delete_announcement school ''65a000000000000000000001'' (Some ''nobody'')
         = (Inl (HTTPException 401 detail), school))"
proof -
  have unknown: "\<not> authenticated school (Some ''nobody'')"
    by (simp add: authenticated_def)
  from failed_authentication_comes_first [OF unknown] unknown show ?thesis
    by blast
qed

end
